theory Spec2Isabelle
  imports Main
begin

section \<open>Python string operations used by the tool\<close>

text \<open>
  Strings are lists of 8-bit characters, read as the code points below 256 of a Python
  \<^verbatim>\<open>str\<close>. On these code points \<^verbatim>\<open>str.strip()\<close> removes the characters
  9..13, 28..32, 133 and 160, and \<^verbatim>\<open>str.lower()\<close> maps \<^verbatim>\<open>A..Z\<close> and the
  Latin-1 capitals 192..222 (without 215) to the character 32 places further.
\<close>

definition is_space :: "char \<Rightarrow> bool" where
  "is_space c =
     (let n = (of_char c :: nat)
      in (9 \<le> n \<and> n \<le> 13) \<or> (28 \<le> n \<and> n \<le> 32) \<or> n = 133 \<or> n = 160)"

definition strip :: "string \<Rightarrow> string" where
  "strip s = rev (dropWhile is_space (rev (dropWhile is_space s)))"

definition lower_char :: "char \<Rightarrow> char" where
  "lower_char c =
     (let n = (of_char c :: nat)
      in if (65 \<le> n \<and> n \<le> 90) \<or> (192 \<le> n \<and> n \<le> 222 \<and> n \<noteq> 215)
         then char_of (n + 32) else c)"

definition lower :: "string \<Rightarrow> string" where
  "lower s = map lower_char s"

text \<open>\<^verbatim>\<open>s.split(sep)\<close> for a one-character separator.\<close>

fun split_str :: "char \<Rightarrow> string \<Rightarrow> string list" where
  "split_str sep [] = [[]]"
| "split_str sep (c # cs) =
     (if c = sep then [] # split_str sep cs
      else (case split_str sep cs of
              [] \<Rightarrow> [[c]]
            | w # ws \<Rightarrow> (c # w) # ws))"

text \<open>\<^verbatim>\<open>sep.join(xs)\<close>.\<close>

fun join :: "string \<Rightarrow> string list \<Rightarrow> string" where
  "join sep [] = []"
| "join sep [x] = x"
| "join sep (x # y # ys) = x @ sep @ join sep (y # ys)"

text \<open>\<^verbatim>\<open>sub in s\<close> on strings: \<open>sub\<close> occurs in \<open>s\<close> as a contiguous block.\<close>

fun contains_str :: "string \<Rightarrow> string \<Rightarrow> bool" where
  "contains_str sub [] = (sub = [])"
| "contains_str sub (c # cs) = (take (length sub) (c # cs) = sub \<or> contains_str sub cs)"

text \<open>\<^verbatim>\<open>str(n)\<close> for a Python integer: decimal digits, with a minus sign below zero.\<close>

definition digit_char :: "nat \<Rightarrow> char" where
  "digit_char d = char_of (48 + d)"

fun digits :: "nat \<Rightarrow> string" where
  "digits n = (if n < 10 then [digit_char n] else digits (n div 10) @ [digit_char (n mod 10)])"

declare digits.simps [simp del]

definition str_int :: "int \<Rightarrow> string" where
  "str_int i = (if i < 0 then CHR ''-'' # digits (nat (- i)) else digits (nat i))"

abbreviation nl :: string where
  "nl \<equiv> [CHR 0x0A]"


section \<open>The sandbox client\<close>

text \<open>
  Modelled from the spec: the module \<^verbatim>\<open>app.sandbox.client\<close> (the object
  \<^verbatim>\<open>SANDBOX_CLIENT\<close>) is not part of the sources at hand. Its interface is the
  Sandbox Provider capability of the specification: \<^verbatim>\<open>create\<close> either fails or
  yields the one active environment handle, configured with the network flag it is
  given; \<^verbatim>\<open>write_file\<close> and \<^verbatim>\<open>run_command\<close> either fail or succeed, the latter
  with the captured output; \<^verbatim>\<open>cleanup\<close> succeeds and destroys the handle.
  A fault carries the text that \<^verbatim>\<open>str(e)\<close> returns.
\<close>

datatype fault =
    ProvisioningError string
  | FilesystemError string
  | TimeoutError string
  | CommandError string
  | ProviderUnavailableError string

fun str_fault :: "fault \<Rightarrow> string" where
  "str_fault (ProvisioningError m) = m"
| "str_fault (FilesystemError m) = m"
| "str_fault (TimeoutError m) = m"
| "str_fault (CommandError m) = m"
| "str_fault (ProviderUnavailableError m) = m"

text \<open>The calls that reach the Provider, each logged with the fault it raised, if any.\<close>

datatype call =
    Create bool
  | RunCommand string int
  | WriteFile string string
  | Cleanup

type_synonym event = "call \<times> fault option"

record handle =
  handle_id :: nat
  network_enabled :: bool

text \<open>
  The mutable state that \<^verbatim>\<open>execute\<close> and \<^verbatim>\<open>reset_sandbox\<close> read and write:
  \<^verbatim>\<open>SANDBOX_CLIENT.sandbox\<close>, the class attribute \<^verbatim>\<open>_installed_packages\<close>, the
  flag \<^verbatim>\<open>config.sandbox.network_enabled\<close>, and the log of Provider calls so far.
\<close>

record world =
  sandbox :: "handle option"
  installed_packages :: "string list"
  config_network_enabled :: bool
  trace :: "event list"

text \<open>
  What the Provider answers is not fixed by the tool: it is a parameter, a function of
  the calls made so far and of the arguments of the present call.
\<close>

record provider =
  create_outcome :: "event list \<Rightarrow> bool \<Rightarrow> fault option"
  run_outcome :: "event list \<Rightarrow> string \<Rightarrow> int \<Rightarrow> fault + string"
  write_outcome :: "event list \<Rightarrow> string \<Rightarrow> string \<Rightarrow> fault option"

text \<open>
  Modelled from the spec: \<^verbatim>\<open>SANDBOX_CLIENT.create\<close> (\<open>ensureReady\<close>) fails
  with a fault and leaves no handle, or sets \<^verbatim>\<open>SANDBOX_CLIENT.sandbox\<close> to a new
  handle that carries the network flag of the configuration.
\<close>

definition client_create :: "provider \<Rightarrow> bool \<Rightarrow> world \<Rightarrow> fault option \<times> world" where
  "client_create p net s =
     (case create_outcome p (trace s) net of
        Some e \<Rightarrow> (Some e, s\<lparr>trace := trace s @ [(Create net, Some e)]\<rparr>)
      | None \<Rightarrow>
          (None, s\<lparr>sandbox := Some \<lparr>handle_id = length (trace s), network_enabled = net\<rparr>,
                   trace := trace s @ [(Create net, None)]\<rparr>))"

text \<open>
  Modelled from the spec: \<^verbatim>\<open>SANDBOX_CLIENT.run_command\<close> fails with a fault or
  returns the captured output.
\<close>

definition client_run_command ::
  "provider \<Rightarrow> string \<Rightarrow> int \<Rightarrow> world \<Rightarrow> (fault + string) \<times> world" where
  "client_run_command p cmd t s =
     (case run_outcome p (trace s) cmd t of
        Inl e \<Rightarrow> (Inl e, s\<lparr>trace := trace s @ [(RunCommand cmd t, Some e)]\<rparr>)
      | Inr out \<Rightarrow> (Inr out, s\<lparr>trace := trace s @ [(RunCommand cmd t, None)]\<rparr>))"

text \<open>
  Modelled from the spec: \<^verbatim>\<open>SANDBOX_CLIENT.write_file\<close> fails with a fault or
  succeeds.
\<close>

definition client_write_file ::
  "provider \<Rightarrow> string \<Rightarrow> string \<Rightarrow> world \<Rightarrow> fault option \<times> world" where
  "client_write_file p path content s =
     (case write_outcome p (trace s) path content of
        Some e \<Rightarrow> (Some e, s\<lparr>trace := trace s @ [(WriteFile path content, Some e)]\<rparr>)
      | None \<Rightarrow> (None, s\<lparr>trace := trace s @ [(WriteFile path content, None)]\<rparr>))"

text \<open>
  Modelled from the spec: \<^verbatim>\<open>SANDBOX_CLIENT.cleanup\<close> succeeds and destroys the
  handle.
\<close>

definition client_cleanup :: "world \<Rightarrow> world" where
  "client_cleanup s = s\<lparr>sandbox := None, trace := trace s @ [(Cleanup, None)]\<rparr>"


section \<open>The tool\<close>

text \<open>
  \<^verbatim>\<open>ToolResult\<close> is declared in \<^verbatim>\<open>app.tool.base\<close>; \<^verbatim>\<open>execute\<close> fills its
  fields \<^verbatim>\<open>output\<close> (here \<open>output_text\<close>) and \<^verbatim>\<open>error\<close>, the latter \<^verbatim>\<open>None\<close> unless
  given. The arguments of \<^verbatim>\<open>execute\<close> form the record \<open>request\<close>. The calls of
  the logger change nothing that is observed here and are left out. The list
  \<^verbatim>\<open>_installed_packages\<close> is one cell: \<^verbatim>\<open>extend\<close> appends to it in place and
  \<^verbatim>\<open>reset_sandbox\<close> binds it to a new empty list.
\<close>

record ToolResult =
  output_text :: string
  error :: "string option"

record request =
  code :: string
  timeout :: int
  install_packages :: string
  allow_network :: bool
  auto_terminate :: bool

definition script_filename :: string where
  "script_filename = ''execution_script.py''"

subsection \<open>The four results\<close>

definition install_error_result :: "fault \<Rightarrow> ToolResult" where
  "install_error_result e =
     \<lparr>output_text = ''Error installing packages: '' @ str_fault e @ nl
          @ ''Execution terminated. Please check package names or try increasing timeout.'' @ nl
          @ ''Please use the terminate tool to end the session.'',
      error = Some (str_fault e)\<rparr>"

definition success_result :: "request \<Rightarrow> string \<Rightarrow> ToolResult" where
  "success_result req result =
     \<lparr>output_text = ''Code execution completed successfully! Output:'' @ nl @ nl
          @ result @ nl @ nl
          @ ''Execution environment: Docker sandbox (Python)'' @ nl
          @ ''Timeout setting: '' @ str_int (timeout req) @ '' seconds'' @ nl
          @ ''Network access: '' @ (if allow_network req then ''Enabled'' else ''Disabled'') @ nl
          @ nl
          @ ''Task completed. To execute other code, please send a new request; ''
          @ ''if no further tasks, use the terminate tool to end the session.'',
      error = None\<rparr>"

definition timeout_result :: "request \<Rightarrow> ToolResult" where
  "timeout_result req =
     \<lparr>output_text = ''Execution timed out after '' @ str_int (timeout req) @ '' seconds. ''
          @ ''The code might be too complex, contain infinite loops, or require more time ''
          @ ''to complete. Please modify the code or increase the timeout.'' @ nl
          @ ''Please use the terminate tool to end the session.'',
      error = Some (''Timeout after '' @ str_int (timeout req) @ ''s'')\<rparr>"

definition exec_error_result :: "string \<Rightarrow> ToolResult" where
  "exec_error_result error_msg =
     \<lparr>output_text = ''Error executing code: '' @ error_msg @ nl
          @ ''Please use the terminate tool to end the session.'',
      error = Some error_msg\<rparr>"

subsection \<open>The steps of \<^verbatim>\<open>execute\<close>\<close>

text \<open>Lines 87 to 92: the sandbox is created only when the client holds none.\<close>

definition ensure_sandbox :: "provider \<Rightarrow> request \<Rightarrow> world \<Rightarrow> fault option \<times> world" where
  "ensure_sandbox p req s =
     (if sandbox s = None
      then client_create p (allow_network req) (s\<lparr>config_network_enabled := allow_network req\<rparr>)
      else (None, s))"

text \<open>Lines 96 to 102.\<close>

definition parse_packages :: "string \<Rightarrow> string list" where
  "parse_packages ip = filter (\<lambda>pkg. pkg \<noteq> []) (map strip (split_str CHR '','' ip))"

definition packages_to_install :: "string list \<Rightarrow> string list \<Rightarrow> string list" where
  "packages_to_install packages installed = filter (\<lambda>pkg. pkg \<notin> set installed) packages"

definition install_cmd :: "string list \<Rightarrow> string" where
  "install_cmd pkgs = ''pip install '' @ join '' '' pkgs @ '' --no-cache-dir''"

text \<open>
  Lines 95 to 122: \<open>Some r\<close> is the early return of the inner handler, \<open>None\<close> means
  that control goes on to the file write.
\<close>

definition install_phase :: "provider \<Rightarrow> request \<Rightarrow> world \<Rightarrow> ToolResult option \<times> world" where
  "install_phase p req s =
     (if install_packages req \<noteq> [] then
        (let pkgs = packages_to_install (parse_packages (install_packages req))
                      (installed_packages s)
         in if pkgs \<noteq> [] then
              (case client_run_command p (install_cmd pkgs) 120 s of
                 (Inl e, s') \<Rightarrow> (Some (install_error_result e), s')
               | (Inr install_result, s') \<Rightarrow>
                   (None, s'\<lparr>installed_packages := installed_packages s' @ pkgs\<rparr>))
            else (None, s))
      else (None, s))"

text \<open>Lines 124 to 143: \<open>Inl e\<close> is a fault that leaves the block for the outer handler.\<close>

definition write_and_run :: "provider \<Rightarrow> request \<Rightarrow> world \<Rightarrow> (fault + ToolResult) \<times> world" where
  "write_and_run p req s =
     (case client_write_file p script_filename (code req) s of
        (Some e, s') \<Rightarrow> (Inl e, s')
      | (None, s') \<Rightarrow>
          (case client_run_command p (''python '' @ script_filename) (timeout req) s' of
             (Inl e, s'') \<Rightarrow> (Inl e, s'')
           | (Inr result, s'') \<Rightarrow> (Inr (success_result req result), s'')))"

text \<open>The body of the \<^verbatim>\<open>try\<close> block, lines 83 to 143.\<close>

definition execute_try :: "provider \<Rightarrow> request \<Rightarrow> world \<Rightarrow> (fault + ToolResult) \<times> world" where
  "execute_try p req s =
     (case ensure_sandbox p req s of
        (Some e, s1) \<Rightarrow> (Inl e, s1)
      | (None, s1) \<Rightarrow>
          (case install_phase p req s1 of
             (Some r, s2) \<Rightarrow> (Inr r, s2)
           | (None, s2) \<Rightarrow> write_and_run p req s2))"

text \<open>The outer handler, lines 145 to 158.\<close>

definition execute_except :: "request \<Rightarrow> fault \<Rightarrow> ToolResult" where
  "execute_except req e =
     (let error_msg = str_fault e
      in if contains_str ''timeout'' (lower error_msg) then timeout_result req
         else exec_error_result error_msg)"

text \<open>\<^verbatim>\<open>reset_sandbox\<close>, lines 164 to 170.\<close>

definition reset_sandbox :: "world \<Rightarrow> world" where
  "reset_sandbox s =
     (if sandbox s \<noteq> None then (client_cleanup s)\<lparr>installed_packages := []\<rparr> else s)"

text \<open>\<^verbatim>\<open>execute\<close>: the block, its handler, and the \<^verbatim>\<open>finally\<close> clause of lines 159 to 162.\<close>

definition execute :: "provider \<Rightarrow> request \<Rightarrow> world \<Rightarrow> ToolResult \<times> world" where
  "execute p req s =
     (case execute_try p req s of
        (res, s1) \<Rightarrow>
          (case res of Inl e \<Rightarrow> execute_except req e | Inr r \<Rightarrow> r,
           if auto_terminate req then reset_sandbox s1 else s1))"


section \<open>Observing the Provider calls of a run\<close>

text \<open>The events that were logged between the state \<open>s\<close> and the later state \<open>s'\<close>.\<close>

definition new_events :: "world \<Rightarrow> world \<Rightarrow> event list" where
  "new_events s s' = drop (length (trace s)) (trace s')"

text \<open>
  The install command is the one command that \<^verbatim>\<open>execute\<close> sends with the text
  \<^verbatim>\<open>pip install\<close> in front; the run command starts with \<^verbatim>\<open>python\<close>.
\<close>

fun is_install :: "event \<Rightarrow> bool" where
  "is_install (RunCommand cmd t, r) = (take 12 cmd = ''pip install '')"
| "is_install (c, r) = False"

fun is_run :: "event \<Rightarrow> bool" where
  "is_run (RunCommand cmd t, r) = (take 7 cmd = ''python '')"
| "is_run (c, r) = False"

fun is_write :: "event \<Rightarrow> bool" where
  "is_write (WriteFile path content, r) = True"
| "is_write (c, r) = False"

fun is_create :: "event \<Rightarrow> bool" where
  "is_create (Create net, r) = True"
| "is_create (c, r) = False"

fun is_cleanup :: "event \<Rightarrow> bool" where
  "is_cleanup (Cleanup, r) = True"
| "is_cleanup (c, r) = False"

text \<open>
  A session starts with no sandbox and no package recorded; it goes on by calls of
  \<^verbatim>\<open>execute\<close>, whatever the request and whatever the Provider answers, and of
  \<^verbatim>\<open>reset_sandbox\<close>.
\<close>

definition fresh :: "world \<Rightarrow> bool" where
  "fresh s = (sandbox s = None \<and> installed_packages s = [])"

inductive session_step :: "world \<Rightarrow> world \<Rightarrow> bool" where
  step_execute: "session_step s (snd (execute p req s))"
| step_reset: "session_step s (reset_sandbox s)"

inductive reachable :: "world \<Rightarrow> bool" where
  reach_fresh: "fresh s \<Longrightarrow> reachable s"
| reach_step: "reachable s \<Longrightarrow> session_step s s' \<Longrightarrow> reachable s'"

text \<open>A list of events holds a fault when some call in it was answered by one.\<close>

definition has_fault :: "event list \<Rightarrow> bool" where
  "has_fault evs = (\<exists>ev \<in> set evs. snd ev \<noteq> None)"

subsection \<open>Sample sessions\<close>

text \<open>
  A session that has not started, a Provider that answers every call, one whose file
  system is full, and two requests for \<^verbatim>\<open>print(1+1)\<close>.
\<close>

definition world0 :: world where
  "world0 = \<lparr>sandbox = None, installed_packages = [], config_network_enabled = False,
              trace = []\<rparr>"

definition provider_ok :: provider where
  "provider_ok = \<lparr>create_outcome = (\<lambda>tr net. None),
                   run_outcome = (\<lambda>tr cmd t. Inr ''2''),
                   write_outcome = (\<lambda>tr path content. None)\<rparr>"

definition provider_disk_full :: provider where
  "provider_disk_full =
     \<lparr>create_outcome = (\<lambda>tr net. None),
      run_outcome = (\<lambda>tr cmd t. Inr ''2''),
      write_outcome = (\<lambda>tr path content. Some (FilesystemError ''No space left on device''))\<rparr>"

definition request_demo :: request where
  "request_demo = \<lparr>code = ''print(1+1)'', timeout = 10, install_packages = [],
                    allow_network = False, auto_terminate = False\<rparr>"

definition request_demo_terminate :: request where
  "request_demo_terminate = request_demo\<lparr>auto_terminate := True\<rparr>"

text \<open>
  Requests that install packages, one that sleeps beyond its two seconds, and one that asks
  for network access.
\<close>

definition request_numpy :: request where
  "request_numpy = request_demo\<lparr>install_packages := ''numpy''\<rparr>"

definition request_numpy_terminate :: request where
  "request_numpy_terminate = request_numpy\<lparr>auto_terminate := True\<rparr>"

definition request_two_pkgs_terminate :: request where
  "request_two_pkgs_terminate =
     request_demo\<lparr>install_packages := ''numpy, nosuchpkg'', auto_terminate := True\<rparr>"

definition request_sleep :: request where
  "request_sleep = \<lparr>code = ''import time; time.sleep(100)'', timeout = 2, install_packages = [],
                     allow_network = False, auto_terminate = False\<rparr>"

definition request_net :: request where
  "request_net = request_demo\<lparr>allow_network := True\<rparr>"

text \<open>
  Providers that fail at one step: at every install command, at the run command with a
  given fault, and at the first attempt to create the environment.
\<close>

definition provider_install_fails :: provider where
  "provider_install_fails =
     \<lparr>create_outcome = (\<lambda>tr net. None),
      run_outcome = (\<lambda>tr cmd t.
         if take 12 cmd = ''pip install ''
         then Inl (CommandError ''Temporary failure in name resolution'') else Inr ''2''),
      write_outcome = (\<lambda>tr path content. None)\<rparr>"

definition provider_run_fails :: "fault \<Rightarrow> provider" where
  "provider_run_fails e =
     \<lparr>create_outcome = (\<lambda>tr net. None),
      run_outcome = (\<lambda>tr cmd t. if take 7 cmd = ''python '' then Inl e else Inr []),
      write_outcome = (\<lambda>tr path content. None)\<rparr>"

definition provider_down_once :: provider where
  "provider_down_once =
     \<lparr>create_outcome = (\<lambda>tr net.
         if tr = [] then Some (ProvisioningError ''Cannot connect to the Docker daemon'')
         else None),
      run_outcome = (\<lambda>tr cmd t. Inr ''2''),
      write_outcome = (\<lambda>tr path content. None)\<rparr>"

text \<open>The session after \<^verbatim>\<open>numpy\<close> has been installed in it.\<close>

definition world_numpy :: world where
  "world_numpy = snd (execute provider_ok request_numpy world0)"

text \<open>
  Faults of the run command: two reports that the deadline was exceeded, one worded
  without and one with the word the handler looks for, and two faults of the script
  itself.
\<close>

definition deadline_fault :: fault where
  "deadline_fault = TimeoutError ''Command execution timed out after 2 seconds''"

definition timeout_word_fault :: fault where
  "timeout_word_fault = TimeoutError ''Timeout: the command took more than 2 seconds''"

definition script_timeout_fault :: fault where
  "script_timeout_fault =
     CommandError ''requests.exceptions.ConnectTimeout: connection to host failed''"

definition script_fault :: fault where
  "script_fault = CommandError ''ZeroDivisionError: division by zero''"


section \<open>Properties of the steps\<close>

lemma has_fault_simps [simp]:
  "has_fault [] = False"
  "has_fault (ev # evs) = (snd ev \<noteq> None \<or> has_fault evs)"
  "has_fault (evs @ evs') = (has_fault evs \<or> has_fault evs')"
  by (auto simp: has_fault_def)

lemma parse_packages_empty: "parse_packages [] = []"
  by (simp add: parse_packages_def strip_def)

lemma ensure_sandbox_obs:
  assumes "ensure_sandbox p req s = (r, s1)"
  shows "installed_packages s1 = installed_packages s"
    and "trace s1 = trace s @ (if sandbox s = None then [(Create (allow_network req), r)] else [])"
    and "sandbox s \<noteq> None \<Longrightarrow> r = None \<and> s1 = s"
    and "sandbox s = None \<Longrightarrow> r = create_outcome p (trace s) (allow_network req) \<and>
           sandbox s1 = (case r of
                           None \<Rightarrow> Some \<lparr>handle_id = length (trace s),
                                         network_enabled = allow_network req\<rparr>
                         | Some e \<Rightarrow> None)"
  using assms
  by (auto simp: ensure_sandbox_def client_create_def split: if_splits option.splits)

lemma install_phase_skip:
  assumes "packages_to_install (parse_packages (install_packages req)) (installed_packages s) = []"
  shows "install_phase p req s = (None, s)"
  using assms by (simp add: install_phase_def Let_def)

lemma install_phase_obs:
  assumes "install_phase p req s = (r, s1)"
    and "pkgs = packages_to_install (parse_packages (install_packages req)) (installed_packages s)"
    and "pkgs \<noteq> []"
  shows "sandbox s1 = sandbox s"
    and "\<exists>fo. trace s1 = trace s @ [(RunCommand (install_cmd pkgs) 120, fo)] \<and>
           fo = (case run_outcome p (trace s) (install_cmd pkgs) 120 of
                   Inl e \<Rightarrow> Some e | Inr out \<Rightarrow> None) \<and>
           r = map_option install_error_result fo \<and>
           installed_packages s1 =
             (if fo = None then installed_packages s @ pkgs else installed_packages s)"
proof -
  have ne: "install_packages req \<noteq> []"
    using assms(2,3) parse_packages_empty by (auto simp: packages_to_install_def)
  show "sandbox s1 = sandbox s"
    using assms ne
    by (auto simp: install_phase_def client_run_command_def Let_def split: sum.splits)
  show "\<exists>fo. trace s1 = trace s @ [(RunCommand (install_cmd pkgs) 120, fo)] \<and>
           fo = (case run_outcome p (trace s) (install_cmd pkgs) 120 of
                   Inl e \<Rightarrow> Some e | Inr out \<Rightarrow> None) \<and>
           r = map_option install_error_result fo \<and>
           installed_packages s1 =
             (if fo = None then installed_packages s @ pkgs else installed_packages s)"
    using assms ne
    by (auto simp: install_phase_def client_run_command_def Let_def split: sum.splits)
qed

lemma write_and_run_obs:
  assumes "write_and_run p req s = (r, s1)"
  shows "sandbox s1 = sandbox s"
    and "installed_packages s1 = installed_packages s"
    and "(\<exists>e. r = Inl e \<and> trace s1 = trace s @ [(WriteFile script_filename (code req), Some e)]) \<or>
         (\<exists>e. r = Inl e \<and> trace s1 = trace s @ [(WriteFile script_filename (code req), None),
              (RunCommand (''python '' @ script_filename) (timeout req), Some e)]) \<or>
         (\<exists>out. r = Inr (success_result req out) \<and> trace s1 = trace s @ [(WriteFile script_filename (code req), None),
              (RunCommand (''python '' @ script_filename) (timeout req), None)])"
  using assms
  by (auto simp: write_and_run_def client_run_command_def client_write_file_def split: sum.splits option.splits)


lemma execute_try_phases:
  assumes "ensure_sandbox p req s = (r0, s1)"
    and "install_phase p req s1 = (r1, s2)"
    and "write_and_run p req s2 = (r2, s3)"
  shows "execute_try p req s =
           (case r0 of
              Some e \<Rightarrow> (Inl e, s1)
            | None \<Rightarrow> (case r1 of Some r \<Rightarrow> (Inr r, s2) | None \<Rightarrow> (r2, s3)))"
  using assms by (simp add: execute_try_def split: option.splits)

lemma ensure_sandbox_faults:
  assumes "ensure_sandbox p req s = (r, s1)"
  shows "\<exists>evs. trace s1 = trace s @ evs \<and> has_fault evs = (r \<noteq> None)"
  using assms
  by (auto simp: ensure_sandbox_def client_create_def split: if_splits option.splits)

lemma install_phase_faults:
  assumes "install_phase p req s = (r, s1)"
  shows "\<exists>evs. trace s1 = trace s @ evs \<and> has_fault evs = (r \<noteq> None)
     \<and> (\<forall>x. r = Some x \<longrightarrow> error x \<noteq> None \<and> output_text x \<noteq> [])"
  using assms
  by (auto simp: install_phase_def client_run_command_def Let_def install_error_result_def
      split: if_splits sum.splits)

lemma write_and_run_faults:
  assumes "write_and_run p req s = (r, s1)"
  shows "\<exists>evs. trace s1 = trace s @ evs \<and> has_fault evs = (isl r)
     \<and> (\<forall>x. r = Inr x \<longrightarrow> error x = None \<and> output_text x \<noteq> [])"
  using assms
  by (auto simp: write_and_run_def client_run_command_def client_write_file_def success_result_def
      split: if_splits sum.splits option.splits)

lemma execute_except_failure:
  "error (execute_except req e) \<noteq> None \<and> output_text (execute_except req e) \<noteq> []"
  by (simp add: execute_except_def Let_def timeout_result_def exec_error_result_def)

lemma reset_sandbox_faults:
  "\<exists>evs. trace (reset_sandbox s) = trace s @ evs \<and> \<not> has_fault evs"
  by (auto simp: reset_sandbox_def client_cleanup_def)

lemma execute_try_faults:
  assumes "execute_try p req s = (r, s')"
  shows "\<exists>evs. trace s' = trace s @ evs \<and>
           has_fault evs = (isl r \<or> (\<exists>x. r = Inr x \<and> error x \<noteq> None)) \<and>
           (\<forall>x. r = Inr x \<longrightarrow> output_text x \<noteq> [])"
proof -
  obtain r0 s1 where e: "ensure_sandbox p req s = (r0, s1)" by (cases "ensure_sandbox p req s")
  obtain r1 s2 where i: "install_phase p req s1 = (r1, s2)" by (cases "install_phase p req s1")
  obtain r2 s3 where w: "write_and_run p req s2 = (r2, s3)" by (cases "write_and_run p req s2")
  note t = execute_try_phases [OF e i w]
  from ensure_sandbox_faults [OF e] obtain ev0 where
    ev0: "trace s1 = trace s @ ev0" "has_fault ev0 = (r0 \<noteq> None)" by blast
  from install_phase_faults [OF i] obtain ev1 where
    ev1: "trace s2 = trace s1 @ ev1" "has_fault ev1 = (r1 \<noteq> None)"
      "\<forall>x. r1 = Some x \<longrightarrow> error x \<noteq> None \<and> output_text x \<noteq> []" by blast
  from write_and_run_faults [OF w] obtain ev2 where
    ev2: "trace s3 = trace s2 @ ev2" "has_fault ev2 = (isl r2)"
      "\<forall>x. r2 = Inr x \<longrightarrow> error x = None \<and> output_text x \<noteq> []" by blast
  show ?thesis
  proof (cases r0)
    case (Some e0)
    with t assms have "r = Inl e0" "s' = s1" by auto
    with ev0 Some show ?thesis by auto
  next
    case None
    note r0 = this
    show ?thesis
    proof (cases r1)
      case (Some x)
      with t assms r0 have "r = Inr x" "s' = s2" by auto
      moreover have "trace s2 = trace s @ (ev0 @ ev1)" using ev0 ev1 by simp
      ultimately show ?thesis using ev0(2) ev1(2,3) r0 Some
        by (intro exI [of _ "ev0 @ ev1"]) auto
    next
      case None
      with t assms r0 have "r = r2" "s' = s3" by auto
      moreover have "trace s3 = trace s @ (ev0 @ ev1 @ ev2)" using ev0 ev1 ev2 by simp
      ultimately show ?thesis using ev0(2) ev1(2) ev2(2,3) r0 None
        by (intro exI [of _ "ev0 @ ev1 @ ev2"]) (cases r2; auto)
    qed
  qed
qed

lemma take_install_cmd [simp]: "take 12 (install_cmd pkgs) = ''pip install ''"
  by (simp add: install_cmd_def)

lemma not_cleanup_if:
  "is_install ev \<or> is_write ev \<or> is_run ev \<or> is_create ev \<Longrightarrow> \<not> is_cleanup ev"
  by (cases ev rule: is_cleanup.cases) auto

lemma install_phase_state:
  assumes "install_phase p req s = (r, s1)"
  shows "sandbox s1 = sandbox s"
    and "\<exists>ext. installed_packages s1 = installed_packages s @ ext"
    and "\<exists>evs. trace s1 = trace s @ evs \<and> list_all is_install evs"
  using assms
  by (auto simp: install_phase_def client_run_command_def Let_def split: if_splits sum.splits)

lemma write_and_run_events:
  assumes "write_and_run p req s = (r, s1)"
  shows "\<exists>evs. trace s1 = trace s @ evs \<and> list_all (\<lambda>ev. is_write ev \<or> is_run ev) evs"
  using assms
  by (auto simp: write_and_run_def client_run_command_def client_write_file_def
      split: sum.splits option.splits)

lemma execute_try_state:
  assumes "execute_try p req s = (r, s')"
  shows "\<exists>ext. installed_packages s' = installed_packages s @ ext"
    and "sandbox s' =
           (case sandbox s of
              Some h \<Rightarrow> Some h
            | None \<Rightarrow>
                (case create_outcome p (trace s) (allow_network req) of
                   None \<Rightarrow> Some \<lparr>handle_id = length (trace s),
                                 network_enabled = allow_network req\<rparr>
                 | Some e \<Rightarrow> None))"
    and "sandbox s' = None \<Longrightarrow> installed_packages s' = installed_packages s"
    and "\<exists>evs. trace s' = trace s @ evs \<and> list_all (\<lambda>ev. \<not> is_cleanup ev) evs"
proof -
  obtain r0 s1 where e: "ensure_sandbox p req s = (r0, s1)" by (cases "ensure_sandbox p req s")
  obtain r1 s2 where i: "install_phase p req s1 = (r1, s2)" by (cases "install_phase p req s1")
  obtain r2 s3 where w: "write_and_run p req s2 = (r2, s3)" by (cases "write_and_run p req s2")
  note t = execute_try_phases [OF e i w]
  note eo = ensure_sandbox_obs [OF e]
  note io = install_phase_state [OF i]
  note wo = write_and_run_obs(1,2) [OF w] write_and_run_events [OF w]
  from io(2) obtain ext where ext: "installed_packages s2 = installed_packages s1 @ ext" by blast
  from io(3) obtain ev1 where ev1: "trace s2 = trace s1 @ ev1" "list_all is_install ev1" by blast
  from wo(3) obtain ev2 where ev2: "trace s3 = trace s2 @ ev2"
      "list_all (\<lambda>ev. is_write ev \<or> is_run ev) ev2" by blast
  have nc1: "list_all (\<lambda>ev. \<not> is_cleanup ev) ev1"
    using ev1(2) not_cleanup_if by (auto simp: list_all_iff)
  have nc2: "list_all (\<lambda>ev. \<not> is_cleanup ev) ev2"
    using ev2(2) not_cleanup_if by (auto simp: list_all_iff)
  have s': "s' = (case r0 of Some e \<Rightarrow> s1 | None \<Rightarrow> (case r1 of Some x \<Rightarrow> s2 | None \<Rightarrow> s3))"
    using t assms by (auto split: option.splits)
  show "\<exists>ext. installed_packages s' = installed_packages s @ ext"
    using s' eo(1) ext wo(2) by (auto split: option.splits)
  show "sandbox s' =
           (case sandbox s of
              Some h \<Rightarrow> Some h
            | None \<Rightarrow>
                (case create_outcome p (trace s) (allow_network req) of
                   None \<Rightarrow> Some \<lparr>handle_id = length (trace s),
                                 network_enabled = allow_network req\<rparr>
                 | Some e \<Rightarrow> None))"
    using s' eo(3,4) io(1) wo(1) by (cases "sandbox s") (auto split: option.splits)
  show "sandbox s' = None \<Longrightarrow> installed_packages s' = installed_packages s"
    using s' eo(1,3,4) io(1) wo(1) by (cases "sandbox s") (auto split: option.splits)
  have "trace s' = trace s @ (case r0 of Some e \<Rightarrow> [(Create (allow_network req), r0)]
          | None \<Rightarrow> (if sandbox s = None then [(Create (allow_network req), r0)] else [])
                     @ (case r1 of Some x \<Rightarrow> ev1 | None \<Rightarrow> ev1 @ ev2))"
    using s' eo(2,3) ev1(1) ev2(1) by (cases "sandbox s") (auto split: option.splits)
  moreover have "list_all (\<lambda>ev. \<not> is_cleanup ev) (case r0 of Some e \<Rightarrow> [(Create (allow_network req), r0)]
          | None \<Rightarrow> (if sandbox s = None then [(Create (allow_network req), r0)] else [])
                     @ (case r1 of Some x \<Rightarrow> ev1 | None \<Rightarrow> ev1 @ ev2))"
    using nc1 nc2 by (auto split: option.splits)
  ultimately show "\<exists>evs. trace s' = trace s @ evs \<and> list_all (\<lambda>ev. \<not> is_cleanup ev) evs"
    by blast
qed

lemma reset_sandbox_state:
  "sandbox (reset_sandbox s) = None"
  "reset_sandbox (reset_sandbox s) = reset_sandbox s"
  "sandbox s \<noteq> None \<Longrightarrow> installed_packages (reset_sandbox s) = []"
  "sandbox s \<noteq> None \<Longrightarrow> trace (reset_sandbox s) = trace s @ [(Cleanup, None)]"
  "sandbox s = None \<Longrightarrow> reset_sandbox s = s"
  by (auto simp: reset_sandbox_def client_cleanup_def)

lemma execute_unfold:
  assumes "execute_try p req s = (r, s1)"
  shows "execute p req s =
           (case r of Inl e \<Rightarrow> execute_except req e | Inr x \<Rightarrow> x,
            if auto_terminate req then reset_sandbox s1 else s1)"
  using assms by (simp add: execute_def)

lemma execute_try_cases [consumes 1, case_names create_failed install_failed body]:
  assumes "execute_try p req s = (r, s')"
  obtains
    (create_failed) e where "ensure_sandbox p req s = (Some e, s')" "r = Inl e"
  | (install_failed) s1 x where "ensure_sandbox p req s = (None, s1)"
      "install_phase p req s1 = (Some x, s')" "r = Inr x"
  | (body) s1 s2 where "ensure_sandbox p req s = (None, s1)"
      "install_phase p req s1 = (None, s2)" "write_and_run p req s2 = (r, s')"
proof -
  obtain r0 s1 where e: "ensure_sandbox p req s = (r0, s1)" by (cases "ensure_sandbox p req s")
  obtain r1 s2 where i: "install_phase p req s1 = (r1, s2)" by (cases "install_phase p req s1")
  obtain r2 s3 where w: "write_and_run p req s2 = (r2, s3)" by (cases "write_and_run p req s2")
  note t = execute_try_phases [OF e i w]
  show ?thesis
  proof (cases r0)
    case (Some e0)
    then show ?thesis using t assms e create_failed by auto
  next
    case None
    note r0 = this
    show ?thesis
    proof (cases r1)
      case (Some x)
      then show ?thesis using t assms e i r0 install_failed by auto
    next
      case None
      then show ?thesis using t assms e i w r0 body by auto
    qed
  qed
qed

lemma packages_to_install_nothing [simp]:
  "packages_to_install (parse_packages []) installed = []"
  by (simp add: parse_packages_empty packages_to_install_def)

lemma install_phase_failed:
  assumes "install_phase p req s = (Some x, s1)"
    and "pk = packages_to_install (parse_packages (install_packages req)) (installed_packages s)"
  shows "\<exists>e. pk \<noteq> [] \<and> run_outcome p (trace s) (install_cmd pk) 120 = Inl e \<and>
           x = install_error_result e \<and>
           s1 = s\<lparr>trace := trace s @ [(RunCommand (install_cmd pk) 120, Some e)]\<rparr>"
  using assms
  by (auto simp: install_phase_def client_run_command_def Let_def split: if_splits sum.splits)

lemma install_phase_done:
  assumes "install_phase p req s = (None, s1)"
    and "pk = packages_to_install (parse_packages (install_packages req)) (installed_packages s)"
  shows "(pk = [] \<and> s1 = s) \<or>
         (pk \<noteq> [] \<and> (\<exists>out. run_outcome p (trace s) (install_cmd pk) 120 = Inr out) \<and>
          s1 = s\<lparr>trace := trace s @ [(RunCommand (install_cmd pk) 120, None)],
                 installed_packages := installed_packages s @ pk\<rparr>)"
  using assms
  by (auto simp: install_phase_def client_run_command_def Let_def split: if_splits sum.splits)

lemma packages_to_install_again:
  "packages_to_install P (I @ packages_to_install P I) = []"
  by (auto simp: packages_to_install_def filter_empty_conv)

lemma ensure_sandbox_ok:
  assumes "ensure_sandbox p req s = (None, s1)"
  shows "sandbox s1 \<noteq> None"
  using ensure_sandbox_obs(3,4) [OF assms] by (cases "sandbox s") auto

lemma filter_install_write_run:
  assumes "list_all (\<lambda>ev. is_write ev \<or> is_run ev) evs"
  shows "filter is_install evs = []"
proof -
  have "\<not> is_install ev" if "is_write ev \<or> is_run ev" for ev
  proof (cases ev rule: is_install.cases)
    case (1 cmd t r)
    show ?thesis
    proof
      assume "is_install ev"
      then have a: "take 12 cmd = ''pip install ''" using 1 by simp
      have "take 7 cmd = take 7 (take 12 cmd)" by simp
      also have "\<dots> = ''pip ins''" by (simp add: a)
      finally show False using that 1 by simp
    qed
  qed simp_all
  then show ?thesis using assms by (auto simp: list_all_iff filter_empty_conv)
qed

lemma reset_sandbox_trace:
  "trace (reset_sandbox s) = trace s @ (if sandbox s \<noteq> None then [(Cleanup, None)] else [])"
  by (simp add: reset_sandbox_def client_cleanup_def)

lemma no_install_when_all_installed:
  assumes "packages_to_install (parse_packages (install_packages req)) (installed_packages s) = []"
  shows "filter is_install (new_events s (snd (execute p req s))) = []"
proof -
  obtain r s' where t: "execute_try p req s = (r, s')" by (cases "execute_try p req s")
  have "\<exists>evs. trace s' = trace s @ evs \<and> filter is_install evs = []"
    using t
  proof (cases rule: execute_try_cases)
    case (create_failed e)
    then show ?thesis using ensure_sandbox_obs(2) [OF create_failed(1)] by auto
  next
    case (install_failed s1 x)
    have "installed_packages s1 = installed_packages s"
      using ensure_sandbox_obs(1) [OF install_failed(1)] .
    then have "install_phase p req s1 = (None, s1)"
      using assms install_phase_skip by simp
    then show ?thesis using install_failed(2) by simp
  next
    case (body s1 s2)
    have "installed_packages s1 = installed_packages s"
      using ensure_sandbox_obs(1) [OF body(1)] .
    then have "install_phase p req s1 = (None, s1)"
      using assms install_phase_skip by simp
    then have s2: "s2 = s1" using body(2) by simp
    from write_and_run_events [OF body(3)] obtain we where
      we: "trace s' = trace s2 @ we" "list_all (\<lambda>ev. is_write ev \<or> is_run ev) we" by blast
    have "trace s' = trace s @ ((if sandbox s = None then [(Create (allow_network req), None)] else []) @ we)"
      using we(1) s2 ensure_sandbox_obs(2) [OF body(1)] by simp
    moreover have "filter is_install ((if sandbox s = None then [(Create (allow_network req), None)] else []) @ we) = []"
      using filter_install_write_run [OF we(2)] by simp
    ultimately show ?thesis by blast
  qed
  then obtain evs where evs: "trace s' = trace s @ evs" "filter is_install evs = []" by blast
  have "snd (execute p req s) = (if auto_terminate req then reset_sandbox s' else s')"
    using execute_unfold [OF t] by simp
  then show ?thesis
    using evs by (simp add: new_events_def reset_sandbox_trace)
qed

text \<open>What the first of two calls leaves behind when creation and installation do not fault.\<close>

lemma install_phase_completed:
  assumes "\<not> auto_terminate req"
    and "\<forall>ev \<in> set (new_events s (snd (execute p req s))).
           (is_create ev \<or> is_install ev) \<longrightarrow> snd ev = None"
    and "pk = packages_to_install (parse_packages (install_packages req)) (installed_packages s)"
  shows "installed_packages (snd (execute p req s)) = installed_packages s @ pk"
    and "length (filter is_install (new_events s (snd (execute p req s)))) = (if pk = [] then 0 else 1)"
    and "sandbox (snd (execute p req s)) \<noteq> None"
proof -
  obtain r s' where t: "execute_try p req s = (r, s')" by (cases "execute_try p req s")
  have s': "snd (execute p req s) = s'"
    using execute_unfold [OF t] assms(1) by simp
  have "installed_packages s' = installed_packages s @ pk \<and>
        length (filter is_install (new_events s s')) = (if pk = [] then 0 else 1) \<and>
        sandbox s' \<noteq> None"
    using t
  proof (cases rule: execute_try_cases)
    case (create_failed e)
    have "sandbox s = None"
      using ensure_sandbox_obs(3) [OF create_failed(1)] by (cases "sandbox s") auto
    then have "(Create (allow_network req), Some e) \<in> set (new_events s s')"
      using ensure_sandbox_obs(2) [OF create_failed(1)] by (simp add: new_events_def)
    then show ?thesis using assms(2) s' by fastforce
  next
    case (install_failed s1 x)
    note eo = ensure_sandbox_obs [OF install_failed(1)]
    have pk1: "pk = packages_to_install (parse_packages (install_packages req)) (installed_packages s1)"
      using assms(3) eo(1) by simp
    from install_phase_failed [OF install_failed(2) pk1] obtain e where
      "trace s' = trace s1 @ [(RunCommand (install_cmd pk) 120, Some e)]"
      by auto
    then have "(RunCommand (install_cmd pk) 120, Some e) \<in> set (new_events s s')"
      using eo(2) by (simp add: new_events_def)
    then show ?thesis using assms(2) s' by fastforce
  next
    case (body s1 s2)
    note eo = ensure_sandbox_obs [OF body(1)]
    note ok = ensure_sandbox_ok [OF body(1)]
    note wo = write_and_run_obs(1,2) [OF body(3)]
    from write_and_run_events [OF body(3)] obtain we where
      we: "trace s' = trace s2 @ we" "list_all (\<lambda>ev. is_write ev \<or> is_run ev) we" by blast
    have pk1: "pk = packages_to_install (parse_packages (install_packages req)) (installed_packages s1)"
      using assms(3) eo(1) by simp
    show ?thesis
    proof (cases "pk = []")
      case True
      then have "s2 = s1" using install_phase_skip [of req s1 p] body(2) pk1 by simp
      then show ?thesis
        using True eo(1,2) ok wo we filter_install_write_run [OF we(2)]
        by (simp add: new_events_def)
    next
      case False
      from install_phase_obs [OF body(2) pk1 False] have
        i: "sandbox s2 = sandbox s1"
          "trace s2 = trace s1 @ [(RunCommand (install_cmd pk) 120, None)]"
          "installed_packages s2 = installed_packages s1 @ pk"
        by auto
      then show ?thesis
        using False eo(1,2) ok wo we filter_install_write_run [OF we(2)]
        by (simp add: new_events_def)
    qed
  qed
  then show "installed_packages (snd (execute p req s)) = installed_packages s @ pk"
    and "length (filter is_install (new_events s (snd (execute p req s)))) = (if pk = [] then 0 else 1)"
    and "sandbox (snd (execute p req s)) \<noteq> None"
    using s' by simp_all
qed

lemma execute_try_paths [consumes 5, case_names create_failed install_failed write_failed run_failed success]:
  assumes "execute_try p req s = (r, s')"
    and "pk = packages_to_install (parse_packages (install_packages req)) (installed_packages s)"
    and "ce = (if sandbox s = None then [(Create (allow_network req), None)] else [])"
    and "ie = (if pk = [] then [] else [(RunCommand (install_cmd pk) 120, None)])"
    and "h = (case sandbox s of
                None \<Rightarrow> \<lparr>handle_id = length (trace s), network_enabled = allow_network req\<rparr>
              | Some h0 \<Rightarrow> h0)"
  obtains
    (create_failed) e where "sandbox s = None" "r = Inl e"
      "new_events s s' = [(Create (allow_network req), Some e)]"
      "installed_packages s' = installed_packages s" "sandbox s' = None"
  | (install_failed) e where "pk \<noteq> []" "r = Inr (install_error_result e)"
      "new_events s s' = ce @ [(RunCommand (install_cmd pk) 120, Some e)]"
      "installed_packages s' = installed_packages s" "sandbox s' = Some h"
  | (write_failed) e where "r = Inl e"
      "new_events s s' = ce @ ie @ [(WriteFile script_filename (code req), Some e)]"
      "installed_packages s' = installed_packages s @ pk" "sandbox s' = Some h"
  | (run_failed) e where "r = Inl e"
      "new_events s s' = ce @ ie @ [(WriteFile script_filename (code req), None),
         (RunCommand (''python '' @ script_filename) (timeout req), Some e)]"
      "installed_packages s' = installed_packages s @ pk" "sandbox s' = Some h"
  | (success) out where "r = Inr (success_result req out)"
      "new_events s s' = ce @ ie @ [(WriteFile script_filename (code req), None),
         (RunCommand (''python '' @ script_filename) (timeout req), None)]"
      "installed_packages s' = installed_packages s @ pk" "sandbox s' = Some h"
  using assms(1)
proof (cases rule: execute_try_cases)
  case (create_failed e)
  note eo = ensure_sandbox_obs [OF create_failed(1)]
  have n: "sandbox s = None" using eo(3) by (cases "sandbox s") auto
  have c: "create_outcome p (trace s) (allow_network req) = Some e"
    using eo(4) [OF n] by simp
  have sb: "sandbox s' = None"
    using eo(4) [OF n] c by simp
  have ev: "new_events s s' = [(Create (allow_network req), Some e)]"
    using eo(2) n by (simp add: new_events_def)
  show ?thesis
    by (rule that(1) [OF n create_failed(2) ev eo(1) sb])
next
  case (install_failed s1 x)
  note eo = ensure_sandbox_obs [OF install_failed(1)]
  have pk1: "pk = packages_to_install (parse_packages (install_packages req)) (installed_packages s1)"
    using assms(2) eo(1) by simp
  have h1: "sandbox s1 = Some h"
    using eo(3,4) assms(5) by (cases "sandbox s") auto
  from install_phase_failed [OF install_failed(2) pk1] obtain e where
    e: "pk \<noteq> []" "x = install_error_result e"
      "s' = s1\<lparr>trace := trace s1 @ [(RunCommand (install_cmd pk) 120, Some e)]\<rparr>"
    by blast
  show ?thesis
    using that(2) [of e] e eo(1,2) h1 install_failed(3) assms(3)
    by (simp add: new_events_def)
next
  case (body s1 s2)
  note eo = ensure_sandbox_obs [OF body(1)]
  have pk1: "pk = packages_to_install (parse_packages (install_packages req)) (installed_packages s1)"
    using assms(2) eo(1) by simp
  have h1: "sandbox s1 = Some h"
    using eo(3,4) assms(5) by (cases "sandbox s") auto
  have t1: "trace s1 = trace s @ ce"
    using eo(2) assms(3) by simp
  have s2: "sandbox s2 = Some h \<and> trace s2 = trace s @ ce @ ie \<and>
            installed_packages s2 = installed_packages s @ pk"
    using install_phase_done [OF body(2) pk1] h1 t1 eo(1) assms(4) by auto
  note wo = write_and_run_obs [OF body(3)]
  from wo(3) show ?thesis
  proof (elim disjE exE conjE)
    fix e
    assume "r = Inl e" "trace s' = trace s2 @ [(WriteFile script_filename (code req), Some e)]"
    then show ?thesis
      using that(3) [of e] s2 wo(1,2) by (simp add: new_events_def)
  next
    fix e
    assume "r = Inl e" "trace s' = trace s2 @ [(WriteFile script_filename (code req), None),
              (RunCommand (''python '' @ script_filename) (timeout req), Some e)]"
    then show ?thesis
      using that(4) [of e] s2 wo(1,2) by (simp add: new_events_def)
  next
    fix out
    assume "r = Inr (success_result req out)"
      "trace s' = trace s2 @ [(WriteFile script_filename (code req), None),
              (RunCommand (''python '' @ script_filename) (timeout req), None)]"
    then show ?thesis
      using that(5) [of out] s2 wo(1,2) by (simp add: new_events_def)
  qed
qed

lemma execute_events:
  assumes "execute_try p req s = (r, s')"
  shows "new_events s (snd (execute p req s)) =
           new_events s s' @ (if auto_terminate req \<and> sandbox s' \<noteq> None then [(Cleanup, None)] else [])"
proof -
  obtain evs where "trace s' = trace s @ evs"
    using execute_try_state(4) [OF assms] by blast
  then show ?thesis
    using execute_unfold [OF assms] by (simp add: new_events_def reset_sandbox_trace)
qed

lemma take7_install_cmd [simp]: "take 7 (install_cmd pkgs) = ''pip ins''"
  by (simp add: install_cmd_def)

lemma event_kinds [simp]:
  "\<not> is_install (RunCommand (''python '' @ f) t, x)"
  "is_run (RunCommand (''python '' @ f) t, x)"
  "\<not> is_run (RunCommand (install_cmd pkgs) t, x)"
  "is_install (RunCommand (install_cmd pkgs) t, x)"
  by simp_all

lemma execute_fst:
  assumes "execute_try p req s = (r, s')"
  shows "fst (execute p req s) = (case r of Inl e \<Rightarrow> execute_except req e | Inr x \<Rightarrow> x)"
  using execute_unfold [OF assms] by simp

lemma execute_snd:
  assumes "execute_try p req s = (r, s')"
  shows "snd (execute p req s) = (if auto_terminate req then reset_sandbox s' else s')"
  using execute_unfold [OF assms] by simp

lemma run_fault_reaches_handler:
  assumes "ev \<in> set (new_events s (snd (execute p req s)))"
    and "is_run ev" and "snd ev = Some e"
  shows "fst (execute p req s) = execute_except req e"
proof -
  obtain r s' where t: "execute_try p req s = (r, s')" by (cases "execute_try p req s")
  note ev = execute_events [OF t]
  note f = execute_fst [OF t]
  from t refl refl refl refl show ?thesis
  proof (cases rule: execute_try_paths)
    case (create_failed e')
    then show ?thesis using assms ev by (auto split: if_splits)
  next
    case (install_failed e')
    then show ?thesis using assms ev by (auto split: if_splits)
  next
    case (write_failed e')
    then show ?thesis using assms ev by (auto split: if_splits)
  next
    case (run_failed e')
    then have "e' = e" using assms ev by (auto split: if_splits)
    then show ?thesis using run_failed f by simp
  next
    case (success out)
    then show ?thesis using assms ev by (auto split: if_splits)
  qed
qed

lemma execute_trace:
  "\<exists>evs. trace (snd (execute p req s)) = trace s @ evs"
proof -
  obtain r s' where t: "execute_try p req s = (r, s')" by (cases "execute_try p req s")
  obtain evs where "trace s' = trace s @ evs"
    using execute_try_state(4) [OF t] by blast
  then show ?thesis
    using execute_snd [OF t] by (simp add: reset_sandbox_trace)
qed

lemma new_events_two_calls:
  "new_events s (snd (execute p2 req2 (snd (execute p1 req1 s))))
     = new_events s (snd (execute p1 req1 s))
       @ new_events (snd (execute p1 req1 s)) (snd (execute p2 req2 (snd (execute p1 req1 s))))"
proof -
  obtain a where a: "trace (snd (execute p1 req1 s)) = trace s @ a"
    using execute_trace by blast
  obtain b where b: "trace (snd (execute p2 req2 (snd (execute p1 req1 s))))
      = trace (snd (execute p1 req1 s)) @ b"
    using execute_trace by blast
  show ?thesis using a b by (simp add: new_events_def)
qed

lemma session_step_effect:
  assumes "session_step s s'"
  shows "(sandbox s' = None \<longrightarrow> sandbox s = None \<longrightarrow> installed_packages s = [] \<longrightarrow> installed_packages s' = []) \<and>
         (sandbox s' = None \<longrightarrow> sandbox s \<noteq> None \<longrightarrow> installed_packages s' = []) \<and>
         ((\<exists>ev \<in> set (new_events s s'). is_cleanup ev)
            \<longrightarrow> sandbox s' = None \<and> installed_packages s' = []) \<and>
         (\<not> (\<exists>ev \<in> set (new_events s s'). is_cleanup ev)
            \<longrightarrow> (\<exists>ext. installed_packages s' = installed_packages s @ ext))"
  using assms
proof (cases rule: session_step.cases)
  case (step_execute p req)
  obtain r s1 where t: "execute_try p req s = (r, s1)" by (cases "execute_try p req s")
  note st = execute_try_state [OF t]
  note ev = execute_events [OF t]
  note sn = execute_snd [OF t]
  from st(4) obtain evs where evs: "trace s1 = trace s @ evs" "list_all (\<lambda>ev. \<not> is_cleanup ev) evs"
    by blast
  have nc: "\<not> (\<exists>ev \<in> set (new_events s s1). is_cleanup ev)"
    using evs by (simp add: new_events_def list_all_iff)
  from st(1) obtain ext where ext: "installed_packages s1 = installed_packages s @ ext" by blast
  have sb: "sandbox s1 = None \<Longrightarrow> sandbox s = None"
    using st(2) by (cases "sandbox s") auto
  show ?thesis
  proof (cases "auto_terminate req \<and> sandbox s1 \<noteq> None")
    case True
    then have "s' = reset_sandbox s1" using sn step_execute by simp
    then show ?thesis
      using True ev step_execute reset_sandbox_state(1,3) [of s1] by auto
  next
    case False
    then have "s' = s1" using sn step_execute reset_sandbox_state(5) [of s1] by auto
    then show ?thesis
      using False ev step_execute nc ext sb st(3) by auto
  qed
next
  case step_reset
  show ?thesis
    using step_reset reset_sandbox_trace [of s] reset_sandbox_state [of s]
    by (cases "sandbox s") (auto simp: new_events_def)
qed

lemma reachable_no_sandbox_no_packages:
  assumes "reachable s"
  shows "sandbox s = None \<longrightarrow> installed_packages s = []"
  using assms
proof (induction rule: reachable.induct)
  case (reach_fresh s)
  then show ?case by (simp add: fresh_def)
next
  case (reach_step s s')
  then show ?case using session_step_effect [OF reach_step(2)] by blast
qed

subsection \<open>The sample sessions, evaluated\<close>

text \<open>The equations that evaluate a run on given data.\<close>

lemmas run_defs = execute_def execute_try_def ensure_sandbox_def install_phase_def
  write_and_run_def client_create_def client_run_command_def client_write_file_def
  client_cleanup_def reset_sandbox_def execute_except_def parse_packages_def
  packages_to_install_def strip_def is_space_def lower_def lower_char_def
  script_filename_def new_events_def

lemmas sample_defs = world0_def provider_ok_def provider_disk_full_def request_demo_def
  request_demo_terminate_def request_numpy_def request_numpy_terminate_def
  request_two_pkgs_terminate_def request_sleep_def request_net_def
  provider_install_fails_def provider_run_fails_def provider_down_once_def

lemmas fault_defs = deadline_fault_def timeout_word_fault_def script_timeout_fault_def
  script_fault_def

lemma world0_fields:
  "sandbox world0 = None" "installed_packages world0 = []" "trace world0 = []"
  by (simp_all add: world0_def)

lemma str_int_samples [simp]: "str_int 10 = ''10''" "str_int 2 = ''2''"
  by code_simp+

lemma parse_samples [simp]:
  "parse_packages ''numpy'' = [''numpy'']"
  "parse_packages ''numpy, nosuchpkg'' = [''numpy'', ''nosuchpkg'']"
  by (simp_all add: parse_packages_def strip_def is_space_def)

lemma demo_ok_run:
  "execute provider_ok request_demo world0 =
     (success_result request_demo ''2'',
      \<lparr>sandbox = Some \<lparr>handle_id = 0, network_enabled = False\<rparr>,
       installed_packages = [], config_network_enabled = False,
       trace = [(Create False, None),
                (WriteFile ''execution_script.py'' ''print(1+1)'', None),
                (RunCommand ''python execution_script.py'' 10, None)]\<rparr>)"
  by (simp add: run_defs sample_defs)

lemma net_after_demo:
  "execute provider_ok request_net
      \<lparr>sandbox = Some \<lparr>handle_id = 0, network_enabled = False\<rparr>,
       installed_packages = [], config_network_enabled = False,
       trace = [(Create False, None),
                (WriteFile ''execution_script.py'' ''print(1+1)'', None),
                (RunCommand ''python execution_script.py'' 10, None)]\<rparr>
   = (success_result request_net ''2'',
      \<lparr>sandbox = Some \<lparr>handle_id = 0, network_enabled = False\<rparr>,
       installed_packages = [], config_network_enabled = False,
       trace = [(Create False, None),
                (WriteFile ''execution_script.py'' ''print(1+1)'', None),
                (RunCommand ''python execution_script.py'' 10, None),
                (WriteFile ''execution_script.py'' ''print(1+1)'', None),
                (RunCommand ''python execution_script.py'' 10, None)]\<rparr>)"
  by (simp add: run_defs sample_defs)

lemma numpy_ok_run:
  "execute provider_ok request_numpy world0 =
     (success_result request_numpy ''2'',
      \<lparr>sandbox = Some \<lparr>handle_id = 0, network_enabled = False\<rparr>,
       installed_packages = [''numpy''], config_network_enabled = False,
       trace = [(Create False, None),
                (RunCommand ''pip install numpy --no-cache-dir'' 120, None),
                (WriteFile ''execution_script.py'' ''print(1+1)'', None),
                (RunCommand ''python execution_script.py'' 10, None)]\<rparr>)"
  by (simp add: run_defs sample_defs install_cmd_def)

lemma numpy_terminate_run:
  "execute provider_ok request_numpy_terminate world0 =
     (success_result request_numpy_terminate ''2'',
      \<lparr>sandbox = None, installed_packages = [], config_network_enabled = False,
       trace = [(Create False, None),
                (RunCommand ''pip install numpy --no-cache-dir'' 120, None),
                (WriteFile ''execution_script.py'' ''print(1+1)'', None),
                (RunCommand ''python execution_script.py'' 10, None),
                (Cleanup, None)]\<rparr>)"
  by (simp add: run_defs sample_defs install_cmd_def)

lemma world_numpy_eq:
  "world_numpy =
      \<lparr>sandbox = Some \<lparr>handle_id = 0, network_enabled = False\<rparr>,
       installed_packages = [''numpy''], config_network_enabled = False,
       trace = [(Create False, None),
                (RunCommand ''pip install numpy --no-cache-dir'' 120, None),
                (WriteFile ''execution_script.py'' ''print(1+1)'', None),
                (RunCommand ''python execution_script.py'' 10, None)]\<rparr>"
  by (simp add: world_numpy_def numpy_ok_run)

lemma numpy_fail_run:
  "execute provider_install_fails request_numpy world0 =
     (install_error_result (CommandError ''Temporary failure in name resolution''),
      \<lparr>sandbox = Some \<lparr>handle_id = 0, network_enabled = False\<rparr>,
       installed_packages = [], config_network_enabled = False,
       trace = [(Create False, None),
                (RunCommand ''pip install numpy --no-cache-dir'' 120,
                   Some (CommandError ''Temporary failure in name resolution''))]\<rparr>)"
  by (simp add: run_defs sample_defs install_cmd_def)

lemma numpy_fail_again:
  "execute provider_install_fails request_numpy
      (snd (execute provider_install_fails request_numpy world0)) =
     (install_error_result (CommandError ''Temporary failure in name resolution''),
      \<lparr>sandbox = Some \<lparr>handle_id = 0, network_enabled = False\<rparr>,
       installed_packages = [], config_network_enabled = False,
       trace = [(Create False, None),
                (RunCommand ''pip install numpy --no-cache-dir'' 120,
                   Some (CommandError ''Temporary failure in name resolution'')),
                (RunCommand ''pip install numpy --no-cache-dir'' 120,
                   Some (CommandError ''Temporary failure in name resolution''))]\<rparr>)"
  unfolding numpy_fail_run
  by (simp add: run_defs sample_defs install_cmd_def)

lemma two_pkgs_run:
  "execute provider_install_fails request_two_pkgs_terminate world_numpy =
     (install_error_result (CommandError ''Temporary failure in name resolution''),
      \<lparr>sandbox = None, installed_packages = [], config_network_enabled = False,
       trace = [(Create False, None),
                (RunCommand ''pip install numpy --no-cache-dir'' 120, None),
                (WriteFile ''execution_script.py'' ''print(1+1)'', None),
                (RunCommand ''python execution_script.py'' 10, None),
                (RunCommand ''pip install nosuchpkg --no-cache-dir'' 120,
                   Some (CommandError ''Temporary failure in name resolution'')),
                (Cleanup, None)]\<rparr>)"
  unfolding world_numpy_eq
  by (simp add: run_defs sample_defs install_cmd_def)

lemma numpy_disk_full_run:
  "execute provider_disk_full request_numpy world0 =
     (exec_error_result ''No space left on device'',
      \<lparr>sandbox = Some \<lparr>handle_id = 0, network_enabled = False\<rparr>,
       installed_packages = [''numpy''], config_network_enabled = False,
       trace = [(Create False, None),
                (RunCommand ''pip install numpy --no-cache-dir'' 120, None),
                (WriteFile ''execution_script.py'' ''print(1+1)'', Some (FilesystemError ''No space left on device''))]\<rparr>)"
  by (simp add: run_defs sample_defs install_cmd_def)

lemma run_fails_run:
  "snd (execute (provider_run_fails e) request_sleep world0) =
      \<lparr>sandbox = Some \<lparr>handle_id = 0, network_enabled = False\<rparr>,
       installed_packages = [], config_network_enabled = False,
       trace = [(Create False, None),
                (WriteFile ''execution_script.py'' ''import time; time.sleep(100)'', None),
                (RunCommand ''python execution_script.py'' 2, Some e)]\<rparr>"
  "fst (execute (provider_run_fails e) request_sleep world0) = execute_except request_sleep e"
  by (simp_all add: execute_def execute_try_def ensure_sandbox_def install_phase_def
      write_and_run_def client_create_def client_run_command_def client_write_file_def
      parse_packages_def packages_to_install_def strip_def script_filename_def
      sample_defs)

lemma fault_texts:
  "\<not> contains_str ''timeout'' (lower (str_fault deadline_fault))"
  "contains_str ''timeout'' (lower (str_fault timeout_word_fault))"
  "contains_str ''timeout'' (lower (str_fault script_timeout_fault))"
  "\<not> contains_str ''timeout'' (lower (str_fault script_fault))"
  by code_simp+

lemma down_once_first:
  "execute provider_down_once request_demo world0 =
     (exec_error_result ''Cannot connect to the Docker daemon'',
      \<lparr>sandbox = None, installed_packages = [], config_network_enabled = False,
       trace = [(Create False, Some (ProvisioningError ''Cannot connect to the Docker daemon''))]\<rparr>)"
  by (simp add: run_defs sample_defs)

lemma down_once_second:
  "execute provider_down_once request_demo
      \<lparr>sandbox = None, installed_packages = [], config_network_enabled = False,
       trace = [(Create False, Some (ProvisioningError ''Cannot connect to the Docker daemon''))]\<rparr>
   = (success_result request_demo ''2'',
      \<lparr>sandbox = Some \<lparr>handle_id = 1, network_enabled = False\<rparr>,
       installed_packages = [], config_network_enabled = False,
       trace = [(Create False, Some (ProvisioningError ''Cannot connect to the Docker daemon'')),
                (Create False, None),
                (WriteFile ''execution_script.py'' ''print(1+1)'', None),
                (RunCommand ''python execution_script.py'' 10, None)]\<rparr>)"
  by (simp add: run_defs sample_defs)


section \<open>The claims\<close>

text \<open>
  C1. Every call of \<^verbatim>\<open>execute\<close> returns a complete result with a message that is
  not empty. A fault raised by any step (environment creation, package installation,
  file write, command run) never leaves \<^verbatim>\<open>execute\<close>: the result reports an error
  exactly when some call to the Provider faulted during the call, and a fault that
  leaves the \<^verbatim>\<open>try\<close> block is turned into a result by the handler.
\<close>

theorem execute_converts_every_fault:
  "output_text (fst (execute p req s)) \<noteq> [] \<and>
   (error (fst (execute p req s)) \<noteq> None)
     = has_fault (new_events s (snd (execute p req s))) \<and>
   (\<forall>e. fst (execute_try p req s) = Inl e \<longrightarrow> fst (execute p req s) = execute_except req e)"
proof -
  obtain r s1 where t: "execute_try p req s = (r, s1)" by (cases "execute_try p req s")
  from execute_try_faults [OF t] obtain evs where
    evs: "trace s1 = trace s @ evs"
      "has_fault evs = (isl r \<or> (\<exists>x. r = Inr x \<and> error x \<noteq> None))"
      "\<forall>x. r = Inr x \<longrightarrow> output_text x \<noteq> []" by blast
  obtain evc where evc: "trace (reset_sandbox s1) = trace s1 @ evc"
      "\<not> has_fault evc"
    using reset_sandbox_faults by blast
  define s' where "s' = (if auto_terminate req then reset_sandbox s1 else s1)"
  have ex: "execute p req s = (case r of Inl e \<Rightarrow> execute_except req e | Inr x \<Rightarrow> x, s')"
    by (simp add: execute_def t s'_def)
  have "\<exists>evd. new_events s s' = evs @ evd \<and> \<not> has_fault evd"
    using evs(1) evc by (auto simp: new_events_def s'_def)
  then obtain evd where evd: "new_events s s' = evs @ evd" "\<not> has_fault evd"
    by blast
  show ?thesis
  proof (cases r)
    case (Inl e)
    then show ?thesis using ex t evs evd execute_except_failure [of req e] by auto
  next
    case (Inr x)
    then show ?thesis using ex t evs evd by auto
  qed
qed

theorem execute_converts_every_fault_witness:
  "fst (execute_try provider_disk_full request_demo world0)
     = Inl (FilesystemError ''No space left on device'') \<and>
   fst (execute provider_disk_full request_demo world0)
     = execute_except request_demo (FilesystemError ''No space left on device'') \<and>
   error (fst (execute provider_disk_full request_demo world0)) \<noteq> None"
proof -
  have t: "fst (execute_try provider_disk_full request_demo world0)
             = Inl (FilesystemError ''No space left on device'')"
    by (simp add: run_defs sample_defs)
  have f: "has_fault (new_events world0 (snd (execute provider_disk_full request_demo world0)))"
    by (simp add: run_defs sample_defs)
  show ?thesis
    using t f execute_converts_every_fault [of provider_disk_full request_demo world0]
    by blast
qed

text \<open>
  C2. With \<^verbatim>\<open>auto_terminate\<close> set, \<^verbatim>\<open>reset_sandbox\<close> is applied to the state
  in which the \<^verbatim>\<open>try\<close> block ended, on whatever path it ended (installation failed,
  a fault was raised, or the run succeeded). After the call there is no sandbox and a
  further \<^verbatim>\<open>reset_sandbox\<close> changes nothing. If the block ended with a sandbox,
  the Provider's cleanup is the last call made and no package is recorded any more; in a
  session where packages are recorded only while a sandbox exists, none is recorded
  afterwards in any case.
\<close>

theorem auto_terminate_resets_on_every_path:
  assumes "auto_terminate req"
  shows "snd (execute p req s) = reset_sandbox (snd (execute_try p req s)) \<and>
         sandbox (snd (execute p req s)) = None \<and>
         reset_sandbox (snd (execute p req s)) = snd (execute p req s) \<and>
         ((sandbox s = None \<longrightarrow> installed_packages s = [])
            \<longrightarrow> installed_packages (snd (execute p req s)) = []) \<and>
         (sandbox (snd (execute_try p req s)) \<noteq> None
            \<longrightarrow> installed_packages (snd (execute p req s)) = [] \<and>
                last (trace (snd (execute p req s))) = (Cleanup, None))"
proof -
  obtain r s1 where t: "execute_try p req s = (r, s1)" by (cases "execute_try p req s")
  note st = execute_try_state [OF t]
  have ex: "snd (execute p req s) = reset_sandbox s1"
    using assms by (simp add: execute_def t)
  have inv: "(sandbox s = None \<longrightarrow> installed_packages s = []) \<Longrightarrow> installed_packages (reset_sandbox s1) = []"
    using st(3) reset_sandbox_state(3,5) [of s1] st(2) by (cases "sandbox s1") (auto split: option.splits)
  show ?thesis
    using ex t inv reset_sandbox_state [of s1] by auto
qed

theorem auto_terminate_resets_on_every_path_witness:
  "auto_terminate request_demo_terminate \<and>
   sandbox (snd (execute_try provider_disk_full request_demo_terminate world0)) \<noteq> None \<and>
   sandbox (snd (execute provider_disk_full request_demo_terminate world0)) = None \<and>
   installed_packages (snd (execute provider_disk_full request_demo_terminate world0)) = [] \<and>
   last (trace (snd (execute provider_disk_full request_demo_terminate world0))) = (Cleanup, None)"
proof -
  have a: "auto_terminate request_demo_terminate"
    by (simp add: sample_defs)
  have b: "sandbox (snd (execute_try provider_disk_full request_demo_terminate world0)) \<noteq> None"
    by (simp add: run_defs sample_defs)
  show ?thesis
    using a b auto_terminate_resets_on_every_path
      [OF a, of provider_disk_full world0]
    by blast
qed

text \<open>
  C3. Sending the same package list twice installs once, provided the first call gets
  through its install step: if the first call does not end the session and neither the
  creation of the environment nor the install command faults in it, then the second call
  with the same list finds nothing left to install and sends no install command, and
  both calls together send one install command when the list names a package that was
  not yet recorded, and none otherwise.
\<close>

theorem install_sent_once:
  assumes "\<not> auto_terminate req1"
    and "install_packages req2 = install_packages req1"
    and "\<forall>ev \<in> set (new_events s (snd (execute p req1 s))).
           (is_create ev \<or> is_install ev) \<longrightarrow> snd ev = None"
  shows "packages_to_install (parse_packages (install_packages req2))
           (installed_packages (snd (execute p req1 s))) = [] \<and>
         filter is_install
           (new_events (snd (execute p req1 s)) (snd (execute p req2 (snd (execute p req1 s))))) = [] \<and>
         length (filter is_install
           (new_events s (snd (execute p req2 (snd (execute p req1 s))))))
           = (if packages_to_install (parse_packages (install_packages req1))
                   (installed_packages s) = [] then 0 else 1)"
proof -
  define s1 where "s1 = snd (execute p req1 s)"
  define pk where "pk = packages_to_install (parse_packages (install_packages req1))
                          (installed_packages s)"
  note c = install_phase_completed [OF assms(1) assms(3) pk_def]
  have again: "packages_to_install (parse_packages (install_packages req2))
                 (installed_packages s1) = []"
    using c(1) assms(2) packages_to_install_again by (simp add: s1_def pk_def)
  have second: "filter is_install (new_events s1 (snd (execute p req2 s1))) = []"
    using no_install_when_all_installed [OF again] .
  have "length (filter is_install (new_events s (snd (execute p req2 s1))))
          = (if pk = [] then 0 else 1)"
    using new_events_two_calls [of s p req2 p req1] c(2) second
    by (simp add: s1_def)
  then show ?thesis
    using again second by (simp add: s1_def pk_def)
qed

text \<open>The two calls on a fresh session with a Provider that answers every call.\<close>

theorem install_sent_once_witness:
  "\<not> auto_terminate request_numpy \<and>
   length (filter is_install (new_events world0 (snd (execute provider_ok request_numpy world0)))) = 1 \<and>
   filter is_install
     (new_events (snd (execute provider_ok request_numpy world0))
        (snd (execute provider_ok request_numpy (snd (execute provider_ok request_numpy world0))))) = [] \<and>
   length (filter is_install
     (new_events world0
        (snd (execute provider_ok request_numpy (snd (execute provider_ok request_numpy world0)))))) = 1"
proof -
  have a: "\<not> auto_terminate request_numpy"
    by (simp add: sample_defs)
  have b: "\<forall>ev \<in> set (new_events world0 (snd (execute provider_ok request_numpy world0))).
             (is_create ev \<or> is_install ev) \<longrightarrow> snd ev = None"
    unfolding numpy_ok_run by (simp add: new_events_def world0_def)
  have c: "packages_to_install (parse_packages (install_packages request_numpy))
             (installed_packages world0) \<noteq> []"
    by (simp add: sample_defs packages_to_install_def)
  have d: "length (filter is_install
             (new_events world0 (snd (execute provider_ok request_numpy world0)))) = 1"
    unfolding numpy_ok_run by (simp add: new_events_def world0_def)
  show ?thesis
    using a c d install_sent_once [OF a refl b] by simp
qed

text \<open>
  Without that proviso the count is not one: when the install command of the first call
  faults, nothing is recorded, and the second call sends the install command again.
\<close>

theorem install_sent_twice_after_failure:
  "length (filter is_install
     (new_events world0
        (snd (execute provider_install_fails request_numpy
           (snd (execute provider_install_fails request_numpy world0)))))) = 2 \<and>
   packages_to_install (parse_packages (install_packages request_numpy))
     (installed_packages (snd (execute provider_install_fails request_numpy world0)))
     = [''numpy'']"
proof -
  have one: "installed_packages (snd (execute provider_install_fails request_numpy world0)) = []"
    by (simp add: numpy_fail_run)
  have two: "new_events world0
        (snd (execute provider_install_fails request_numpy
           (snd (execute provider_install_fails request_numpy world0))))
      = [(Create False, None),
         (RunCommand ''pip install numpy --no-cache-dir'' 120,
            Some (CommandError ''Temporary failure in name resolution'')),
         (RunCommand ''pip install numpy --no-cache-dir'' 120,
            Some (CommandError ''Temporary failure in name resolution''))]"
    unfolding numpy_fail_again by (simp add: new_events_def world0_def)
  show ?thesis
    unfolding one two
    by (simp add: packages_to_install_def request_numpy_def request_demo_def)
qed

text \<open>
  C4. When the install command faults, \<^verbatim>\<open>execute\<close> returns the result of the
  inner handler, which carries the text of the fault, and neither writes nor runs the
  script. No package of the failed batch is recorded. The recorded packages are those
  recorded before the call when \<^verbatim>\<open>auto_terminate\<close> is not set; when it is set,
  the reset at the end of the call clears them.
\<close>

theorem failed_install_short_circuits:
  assumes "ev \<in> set (new_events s (snd (execute p req s)))"
    and "is_install ev" and "snd ev = Some e"
  shows "fst (execute p req s) = install_error_result e \<and>
         filter (\<lambda>ev. is_write ev \<or> is_run ev) (new_events s (snd (execute p req s))) = [] \<and>
         installed_packages (snd (execute p req s))
           = (if auto_terminate req then [] else installed_packages s) \<and>
         (\<forall>pkg \<in> set (packages_to_install (parse_packages (install_packages req))
                        (installed_packages s)).
            pkg \<notin> set (installed_packages (snd (execute p req s))))"
proof -
  obtain r s' where t: "execute_try p req s = (r, s')" by (cases "execute_try p req s")
  note ev = execute_events [OF t]
  note f = execute_fst [OF t]
  note sn = execute_snd [OF t]
  define pk where "pk = packages_to_install (parse_packages (install_packages req)) (installed_packages s)"
  have fresh_pk: "pkg \<notin> set (installed_packages s)" if "pkg \<in> set pk" for pkg
    using that by (simp add: pk_def packages_to_install_def)
  from t pk_def refl refl refl show ?thesis
  proof (cases rule: execute_try_paths)
    case (create_failed e')
    then show ?thesis using assms ev by (auto split: if_splits)
  next
    case (install_failed e')
    then have "e' = e" using assms ev by (auto split: if_splits)
    then show ?thesis
      using install_failed ev f sn fresh_pk reset_sandbox_state(3) [of s']
      by (auto simp: pk_def [symmetric])
  next
    case (write_failed e')
    then show ?thesis using assms ev by (auto split: if_splits)
  next
    case (run_failed e')
    then show ?thesis using assms ev by (auto split: if_splits)
  next
    case (success out)
    then show ?thesis using assms ev by (auto split: if_splits)
  qed
qed

text \<open>A failing installation of \<^verbatim>\<open>numpy\<close> on a fresh session.\<close>

theorem failed_install_short_circuits_witness:
  "(RunCommand ''pip install numpy --no-cache-dir'' 120,
      Some (CommandError ''Temporary failure in name resolution''))
     \<in> set (new_events world0 (snd (execute provider_install_fails request_numpy world0))) \<and>
   fst (execute provider_install_fails request_numpy world0)
     = install_error_result (CommandError ''Temporary failure in name resolution'') \<and>
   filter (\<lambda>ev. is_write ev \<or> is_run ev)
     (new_events world0 (snd (execute provider_install_fails request_numpy world0))) = [] \<and>
   installed_packages (snd (execute provider_install_fails request_numpy world0)) = [] \<and>
   ''numpy'' \<notin> set (installed_packages (snd (execute provider_install_fails request_numpy world0)))"
proof -
  have a: "(RunCommand ''pip install numpy --no-cache-dir'' 120,
      Some (CommandError ''Temporary failure in name resolution''))
     \<in> set (new_events world0 (snd (execute provider_install_fails request_numpy world0)))"
    unfolding numpy_fail_run by (simp add: new_events_def world0_def)
  have b: "is_install (RunCommand ''pip install numpy --no-cache-dir'' 120,
      Some (CommandError ''Temporary failure in name resolution''))"
    by simp
  have c: "''numpy'' \<in> set (packages_to_install (parse_packages (install_packages request_numpy))
                        (installed_packages world0))"
    by (simp add: sample_defs packages_to_install_def)
  have d: "installed_packages world0 = []" "\<not> auto_terminate request_numpy"
    by (simp_all add: sample_defs)
  show ?thesis
    using a c d failed_install_short_circuits [OF a b, of "CommandError ''Temporary failure in name resolution''"]
    by auto
qed

text \<open>
  With \<^verbatim>\<open>auto_terminate\<close> set the recorded packages are not as they were before
  the call: \<^verbatim>\<open>numpy\<close> was recorded, the batch with \<^verbatim>\<open>nosuchpkg\<close> fails,
  and the reset in the \<^verbatim>\<open>finally\<close> clause empties the record.
\<close>

theorem failed_install_with_terminate_clears_packages:
  "installed_packages world_numpy = [''numpy''] \<and>
   fst (execute provider_install_fails request_two_pkgs_terminate world_numpy)
     = install_error_result (CommandError ''Temporary failure in name resolution'') \<and>
   installed_packages (snd (execute provider_install_fails request_two_pkgs_terminate world_numpy))
     = [] \<and>
   installed_packages (snd (execute provider_install_fails request_two_pkgs_terminate world_numpy))
     \<noteq> installed_packages world_numpy"
  unfolding two_pkgs_run by (simp add: world_numpy_eq)

text \<open>
  C5. When the run command faults with a text that contains \<^verbatim>\<open>timeout\<close>, in
  any mix of upper and lower case, \<^verbatim>\<open>execute\<close> returns the timeout result: its
  error field is \<^verbatim>\<open>Timeout after <n>s\<close> for the timeout \<open>n\<close> of the request,
  and its message states that timeout, says that the code may be too complex, loop
  forever or need more time, and asks to modify the code or increase the timeout.
\<close>

theorem timeout_text_gives_timeout_result:
  assumes "ev \<in> set (new_events s (snd (execute p req s)))"
    and "is_run ev" and "snd ev = Some e"
    and "contains_str ''timeout'' (lower (str_fault e))"
  shows "fst (execute p req s) = timeout_result req \<and>
         error (fst (execute p req s)) = Some (''Timeout after '' @ str_int (timeout req) @ ''s'') \<and>
         output_text (fst (execute p req s)) =
           ''Execution timed out after '' @ str_int (timeout req) @ '' seconds. ''
           @ ''The code might be too complex, contain infinite loops, or require more time ''
           @ ''to complete. Please modify the code or increase the timeout.'' @ nl
           @ ''Please use the terminate tool to end the session.''"
  using run_fault_reaches_handler [OF assms(1,2,3)] assms(4)
  by (simp add: execute_except_def Let_def timeout_result_def)

text \<open>A report of the exceeded deadline that carries the word.\<close>

theorem timeout_text_gives_timeout_result_witness:
  "(RunCommand ''python execution_script.py'' 2, Some timeout_word_fault)
     \<in> set (new_events world0
          (snd (execute (provider_run_fails timeout_word_fault) request_sleep world0))) \<and>
   contains_str ''timeout'' (lower (str_fault timeout_word_fault)) \<and>
   fst (execute (provider_run_fails timeout_word_fault) request_sleep world0)
     = timeout_result request_sleep \<and>
   error (fst (execute (provider_run_fails timeout_word_fault) request_sleep world0))
     = Some ''Timeout after 2s''"
proof -
  have a: "(RunCommand ''python execution_script.py'' 2, Some timeout_word_fault)
     \<in> set (new_events world0
          (snd (execute (provider_run_fails timeout_word_fault) request_sleep world0)))"
    by (simp add: run_fails_run new_events_def world0_fields)
  have b: "is_run (RunCommand ''python execution_script.py'' 2, Some timeout_word_fault)"
    by simp
  have t: "timeout request_sleep = 2"
    by (simp add: request_sleep_def)
  show ?thesis
    using a t fault_texts(2)
      timeout_text_gives_timeout_result [OF a b _ fault_texts(2)]
    by (simp add: timeout_result_def)
qed

text \<open>
  The kind of the fault plays no part: a report that the deadline was exceeded, worded
  \<^verbatim>\<open>timed out\<close>, is answered with the result for any other fault.
\<close>

theorem deadline_report_without_the_word:
  "(RunCommand ''python execution_script.py'' 2,
      Some (TimeoutError ''Command execution timed out after 2 seconds''))
     \<in> set (trace (snd (execute (provider_run_fails deadline_fault) request_sleep world0))) \<and>
   fst (execute (provider_run_fails deadline_fault) request_sleep world0)
     = exec_error_result ''Command execution timed out after 2 seconds'' \<and>
   fst (execute (provider_run_fails deadline_fault) request_sleep world0)
     \<noteq> timeout_result request_sleep"
  using fault_texts(1)
  by (simp add: run_fails_run execute_except_def Let_def)
    (simp add: deadline_fault_def exec_error_result_def timeout_result_def)

text \<open>
  C6. When the run command faults with a text that does not contain \<^verbatim>\<open>timeout\<close>
  in any mix of upper and lower case, \<^verbatim>\<open>execute\<close> returns the result for a
  faulted execution: the error field is the text of the fault, the message includes it,
  and the result is not the timeout result.
\<close>

theorem other_text_gives_error_result:
  assumes "ev \<in> set (new_events s (snd (execute p req s)))"
    and "is_run ev" and "snd ev = Some e"
    and "\<not> contains_str ''timeout'' (lower (str_fault e))"
  shows "fst (execute p req s) = exec_error_result (str_fault e) \<and>
         fst (execute p req s) \<noteq> timeout_result req \<and>
         error (fst (execute p req s)) = Some (str_fault e) \<and>
         output_text (fst (execute p req s)) =
           ''Error executing code: '' @ str_fault e @ nl
           @ ''Please use the terminate tool to end the session.''"
  using run_fault_reaches_handler [OF assms(1,2,3)] assms(4)
  by (simp add: execute_except_def Let_def timeout_result_def exec_error_result_def)

text \<open>A script that divides by zero.\<close>

theorem other_text_gives_error_result_witness:
  "(RunCommand ''python execution_script.py'' 2, Some script_fault)
     \<in> set (new_events world0
          (snd (execute (provider_run_fails script_fault) request_sleep world0))) \<and>
   \<not> contains_str ''timeout'' (lower (str_fault script_fault)) \<and>
   fst (execute (provider_run_fails script_fault) request_sleep world0)
     = exec_error_result ''ZeroDivisionError: division by zero'' \<and>
   fst (execute (provider_run_fails script_fault) request_sleep world0)
     \<noteq> timeout_result request_sleep"
proof -
  have a: "(RunCommand ''python execution_script.py'' 2, Some script_fault)
     \<in> set (new_events world0
          (snd (execute (provider_run_fails script_fault) request_sleep world0)))"
    by (simp add: run_fails_run new_events_def world0_fields)
  have b: "is_run (RunCommand ''python execution_script.py'' 2, Some script_fault)"
    by simp
  have m: "str_fault script_fault = ''ZeroDivisionError: division by zero''"
    by (simp add: script_fault_def)
  show ?thesis
    using a m fault_texts(4)
      other_text_gives_error_result [OF a b _ fault_texts(4)]
    by (simp add: exec_error_result_def timeout_result_def)
qed

text \<open>
  The text decides, not the origin of the fault: a script that ends abnormally with an
  exception whose name contains \<^verbatim>\<open>Timeout\<close>, well within its deadline, is answered
  with the timeout result.
\<close>

theorem script_fault_naming_timeout:
  "(RunCommand ''python execution_script.py'' 2,
      Some (CommandError ''requests.exceptions.ConnectTimeout: connection to host failed''))
     \<in> set (trace (snd (execute (provider_run_fails script_timeout_fault) request_sleep world0))) \<and>
   fst (execute (provider_run_fails script_timeout_fault) request_sleep world0)
     = timeout_result request_sleep \<and>
   fst (execute (provider_run_fails script_timeout_fault) request_sleep world0)
     \<noteq> exec_error_result ''requests.exceptions.ConnectTimeout: connection to host failed''"
  using fault_texts(3)
  by (simp add: run_fails_run execute_except_def Let_def)
    (simp add: script_timeout_fault_def exec_error_result_def timeout_result_def)

text \<open>
  C7. The message of a successful run embeds the captured output and the timeout of the
  request, but its line on network access repeats the \<^verbatim>\<open>allow_network\<close> flag of
  the present request. On a sandbox that an earlier request created without network
  access, a request with \<^verbatim>\<open>allow_network\<close> set is run in that same sandbox, and
  the message reads \<^verbatim>\<open>Network access: Enabled\<close>.
\<close>

theorem network_line_echoes_the_request:
  "sandbox (snd (execute provider_ok request_demo world0))
     = Some \<lparr>handle_id = 0, network_enabled = False\<rparr> \<and>
   sandbox (snd (execute provider_ok request_net (snd (execute provider_ok request_demo world0))))
     = Some \<lparr>handle_id = 0, network_enabled = False\<rparr> \<and>
   error (fst (execute provider_ok request_net (snd (execute provider_ok request_demo world0))))
     = None \<and>
   output_text (fst (execute provider_ok request_net (snd (execute provider_ok request_demo world0))))
     = ''Code execution completed successfully! Output:'' @ nl @ nl
       @ ''2'' @ nl @ nl
       @ ''Execution environment: Docker sandbox (Python)'' @ nl
       @ ''Timeout setting: 10 seconds'' @ nl
       @ ''Network access: Enabled'' @ nl
       @ nl
       @ ''Task completed. To execute other code, please send a new request; ''
       @ ''if no further tasks, use the terminate tool to end the session.''"
proof -
  have s: "snd (execute provider_ok request_demo world0) =
      \<lparr>sandbox = Some \<lparr>handle_id = 0, network_enabled = False\<rparr>,
       installed_packages = [], config_network_enabled = False,
       trace = [(Create False, None),
                (WriteFile ''execution_script.py'' ''print(1+1)'', None),
                (RunCommand ''python execution_script.py'' 10, None)]\<rparr>"
    by (simp add: demo_ok_run)
  show ?thesis
    unfolding s net_after_demo
    by (simp add: success_result_def request_net_def request_demo_def)
qed

text \<open>
  C8. On a session without a sandbox, when the first of two successive calls does not end
  the session and the creation of the environment does not fault in it, the environment
  is created once across both calls, in the first one, with the network flag of the
  first request, and the second call runs in the sandbox that the first one left.
\<close>

theorem sandbox_created_once:
  assumes "sandbox s = None"
    and "\<not> auto_terminate req1"
    and "\<forall>ev \<in> set (new_events s (snd (execute p req1 s))). is_create ev \<longrightarrow> snd ev = None"
  shows "filter is_create (new_events s (snd (execute p req1 s)))
           = [(Create (allow_network req1), None)] \<and>
         filter is_create
           (new_events (snd (execute p req1 s)) (snd (execute p req2 (snd (execute p req1 s))))) = [] \<and>
         sandbox (snd (execute p req1 s))
           = Some \<lparr>handle_id = length (trace s), network_enabled = allow_network req1\<rparr> \<and>
         sandbox (snd (execute_try p req2 (snd (execute p req1 s))))
           = sandbox (snd (execute p req1 s))"
proof -
  obtain r s' where t: "execute_try p req1 s = (r, s')" by (cases "execute_try p req1 s")
  note ev = execute_events [OF t]
  note sn = execute_snd [OF t]
  define s1 where "s1 = snd (execute p req1 s)"
  have first: "filter is_create (new_events s s1) = [(Create (allow_network req1), None)] \<and>
               sandbox s1 = Some \<lparr>handle_id = length (trace s), network_enabled = allow_network req1\<rparr>"
    using t refl refl refl refl
  proof (cases rule: execute_try_paths)
    case (create_failed e)
    then show ?thesis using assms ev by (auto split: if_splits)
  next
    case (install_failed e)
    then show ?thesis using assms ev sn by (auto simp: s1_def)
  next
    case (write_failed e)
    then show ?thesis using assms ev sn by (auto simp: s1_def)
  next
    case (run_failed e)
    then show ?thesis using assms ev sn by (auto simp: s1_def)
  next
    case (success out)
    then show ?thesis using assms ev sn by (auto simp: s1_def)
  qed
  obtain r2 s2 where t2: "execute_try p req2 s1 = (r2, s2)" by (cases "execute_try p req2 s1")
  note ev2 = execute_events [OF t2]
  have sb: "sandbox s2 = sandbox s1"
    using execute_try_state(2) [OF t2] first by simp
  have second: "filter is_create (new_events s1 (snd (execute p req2 s1))) = []"
    using t2 refl refl refl refl
  proof (cases rule: execute_try_paths)
    case (create_failed e)
    then show ?thesis using first by simp
  next
    case (install_failed e)
    then show ?thesis using first ev2 by auto
  next
    case (write_failed e)
    then show ?thesis using first ev2 by auto
  next
    case (run_failed e)
    then show ?thesis using first ev2 by auto
  next
    case (success out)
    then show ?thesis using first ev2 by auto
  qed
  show ?thesis
    using first second sb t2 by (simp add: s1_def)
qed

text \<open>Two requests on a fresh session, the second asking for network access.\<close>

theorem sandbox_created_once_witness:
  "sandbox world0 = None \<and> \<not> auto_terminate request_demo \<and>
   filter is_create (new_events world0 (snd (execute provider_ok request_demo world0)))
     = [(Create False, None)] \<and>
   filter is_create
     (new_events (snd (execute provider_ok request_demo world0))
        (snd (execute provider_ok request_net (snd (execute provider_ok request_demo world0))))) = [] \<and>
   sandbox (snd (execute provider_ok request_demo world0))
     = Some \<lparr>handle_id = 0, network_enabled = False\<rparr> \<and>
   sandbox (snd (execute_try provider_ok request_net (snd (execute provider_ok request_demo world0))))
     = Some \<lparr>handle_id = 0, network_enabled = False\<rparr>"
proof -
  have a: "sandbox world0 = None" "\<not> auto_terminate request_demo"
    "allow_network request_demo = False"
    by (simp_all add: world0_fields request_demo_def)
  have b: "\<forall>ev \<in> set (new_events world0 (snd (execute provider_ok request_demo world0))).
             is_create ev \<longrightarrow> snd ev = None"
    by (simp add: demo_ok_run new_events_def world0_fields)
  show ?thesis
    using a sandbox_created_once [OF a(1) a(2) b, of request_net]
    by (simp add: world0_fields)
qed

text \<open>
  When the creation faults in the first call, no sandbox is left behind, and the second
  call asks the Provider to create the environment again: two calls of creation across
  the two calls of \<^verbatim>\<open>execute\<close>.
\<close>

theorem sandbox_created_twice_after_failure:
  "\<not> auto_terminate request_demo \<and>
   sandbox world0 = None \<and>
   filter is_create
     (new_events world0
        (snd (execute provider_down_once request_demo
           (snd (execute provider_down_once request_demo world0)))))
     = [(Create False, Some (ProvisioningError ''Cannot connect to the Docker daemon'')),
        (Create False, None)] \<and>
   sandbox (snd (execute provider_down_once request_demo world0)) = None"
proof -
  have s: "snd (execute provider_down_once request_demo world0) =
      \<lparr>sandbox = None, installed_packages = [], config_network_enabled = False,
       trace = [(Create False, Some (ProvisioningError ''Cannot connect to the Docker daemon''))]\<rparr>"
    by (simp add: down_once_first)
  have a: "\<not> auto_terminate request_demo"
    by (simp add: request_demo_def)
  show ?thesis
    unfolding s down_once_second
    using a by (simp add: new_events_def world0_fields)
qed

text \<open>
  C9. In a session that starts without sandbox and without recorded packages and goes on by
  calls of \<^verbatim>\<open>execute\<close> and \<^verbatim>\<open>reset_sandbox\<close>, packages are recorded only
  while a sandbox exists, so a newly created environment starts with none. Every step
  either appends to the recorded packages (possibly nothing), and this is the case
  whenever the Provider's cleanup is not called in the step, or the cleanup is called,
  and then the sandbox is gone and no package is recorded.
\<close>

theorem installed_packages_grow_until_reset:
  assumes "reachable s" and "session_step s s'"
  shows "reachable s' \<and>
         (sandbox s = None \<longrightarrow> installed_packages s = []) \<and>
         (sandbox s' = None \<longrightarrow> installed_packages s' = []) \<and>
         (if \<exists>ev \<in> set (new_events s s'). is_cleanup ev
          then sandbox s' = None \<and> installed_packages s' = []
          else \<exists>ext. installed_packages s' = installed_packages s @ ext)"
proof -
  have r: "reachable s'" using assms by (rule reach_step)
  show ?thesis
    using r reachable_no_sandbox_no_packages [OF assms(1)]
      reachable_no_sandbox_no_packages [OF r] session_step_effect [OF assms(2)]
    by (simp split: if_splits)
qed

text \<open>A step that installs \<^verbatim>\<open>numpy\<close> and ends the session.\<close>

theorem installed_packages_grow_until_reset_witness:
  "reachable world0 \<and>
   session_step world0 (snd (execute provider_ok request_numpy_terminate world0)) \<and>
   sandbox world0 = None \<and> installed_packages world0 = [] \<and>
   (Cleanup, None)
     \<in> set (new_events world0 (snd (execute provider_ok request_numpy_terminate world0))) \<and>
   reachable (snd (execute provider_ok request_numpy_terminate world0)) \<and>
   sandbox (snd (execute provider_ok request_numpy_terminate world0)) = None \<and>
   installed_packages (snd (execute provider_ok request_numpy_terminate world0)) = []"
proof -
  have a: "reachable world0"
    by (rule reach_fresh) (simp add: fresh_def world0_fields)
  have b: "session_step world0 (snd (execute provider_ok request_numpy_terminate world0))"
    by (rule step_execute)
  have c: "(Cleanup, None)
     \<in> set (new_events world0 (snd (execute provider_ok request_numpy_terminate world0)))"
    by (simp add: numpy_terminate_run new_events_def world0_fields)
  have d: "\<exists>ev \<in> set (new_events world0
             (snd (execute provider_ok request_numpy_terminate world0))). is_cleanup ev"
    using c by (rule bexI [rotated]) simp
  show ?thesis
    using a b c d installed_packages_grow_until_reset [OF a b]
    by (simp add: world0_fields)
qed

text \<open>
  C10. When \<^verbatim>\<open>auto_terminate\<close> is not set, the install command succeeds, and the
  file write or the run command faults afterwards, the call returns a failure, the
  packages it installed stay recorded, and a following request with the same package
  list finds nothing to install and sends no install command, whatever the Provider
  would answer.
\<close>

theorem later_fault_keeps_install:
  assumes "\<not> auto_terminate req1"
    and "install_packages req2 = install_packages req1"
    and "\<exists>ev \<in> set (new_events s (snd (execute p req1 s))). is_install ev \<and> snd ev = None"
    and "\<exists>ev \<in> set (new_events s (snd (execute p req1 s))).
           (is_write ev \<or> is_run ev) \<and> snd ev \<noteq> None"
  shows "error (fst (execute p req1 s)) \<noteq> None \<and>
         packages_to_install (parse_packages (install_packages req1)) (installed_packages s) \<noteq> [] \<and>
         installed_packages (snd (execute p req1 s))
           = installed_packages s
             @ packages_to_install (parse_packages (install_packages req1)) (installed_packages s) \<and>
         packages_to_install (parse_packages (install_packages req2))
           (installed_packages (snd (execute p req1 s))) = [] \<and>
         filter is_install
           (new_events (snd (execute p req1 s)) (snd (execute p' req2 (snd (execute p req1 s))))) = []"
proof -
  obtain r s' where t: "execute_try p req1 s = (r, s')" by (cases "execute_try p req1 s")
  note ev = execute_events [OF t]
  note f = execute_fst [OF t]
  note sn = execute_snd [OF t]
  define pk where "pk = packages_to_install (parse_packages (install_packages req1))
                          (installed_packages s)"
  have first: "error (fst (execute p req1 s)) \<noteq> None \<and> pk \<noteq> [] \<and>
               installed_packages (snd (execute p req1 s)) = installed_packages s @ pk"
    using t pk_def refl refl refl
  proof (cases rule: execute_try_paths)
    case (create_failed e)
    then show ?thesis using assms(1,3) ev by (auto split: if_splits)
  next
    case (install_failed e)
    then show ?thesis using assms(1,3) ev by (auto split: if_splits)
  next
    case (write_failed e)
    then show ?thesis
      using assms(1,3) ev f sn execute_except_failure [of req1 e] by (auto split: if_splits)
  next
    case (run_failed e)
    then show ?thesis
      using assms(1,3) ev f sn execute_except_failure [of req1 e] by (auto split: if_splits)
  next
    case (success out)
    then show ?thesis using assms(1,4) ev by (auto split: if_splits)
  qed
  then have again: "packages_to_install (parse_packages (install_packages req2))
                 (installed_packages (snd (execute p req1 s))) = []"
    using assms(2) packages_to_install_again by (simp add: pk_def)
  show ?thesis
    using first again no_install_when_all_installed [OF again] by (simp add: pk_def)
qed

text \<open>\<^verbatim>\<open>numpy\<close> is installed, then the file system is full.\<close>

theorem later_fault_keeps_install_witness:
  "\<not> auto_terminate request_numpy \<and>
   (RunCommand ''pip install numpy --no-cache-dir'' 120, None)
     \<in> set (new_events world0 (snd (execute provider_disk_full request_numpy world0))) \<and>
   (WriteFile ''execution_script.py'' ''print(1+1)'', Some (FilesystemError ''No space left on device''))
     \<in> set (new_events world0 (snd (execute provider_disk_full request_numpy world0))) \<and>
   error (fst (execute provider_disk_full request_numpy world0)) \<noteq> None \<and>
   installed_packages (snd (execute provider_disk_full request_numpy world0)) = [''numpy''] \<and>
   filter is_install
     (new_events (snd (execute provider_disk_full request_numpy world0))
        (snd (execute provider_ok request_numpy
           (snd (execute provider_disk_full request_numpy world0))))) = []"
proof -
  have a: "\<not> auto_terminate request_numpy"
    by (simp add: request_numpy_def request_demo_def)
  have i: "(RunCommand ''pip install numpy --no-cache-dir'' 120, None)
     \<in> set (new_events world0 (snd (execute provider_disk_full request_numpy world0)))"
    and w: "(WriteFile ''execution_script.py'' ''print(1+1)'',
              Some (FilesystemError ''No space left on device''))
     \<in> set (new_events world0 (snd (execute provider_disk_full request_numpy world0)))"
    by (simp_all add: numpy_disk_full_run new_events_def world0_fields)
  have b: "\<exists>ev \<in> set (new_events world0 (snd (execute provider_disk_full request_numpy world0))).
             is_install ev \<and> snd ev = None"
    using i by (rule bexI [rotated]) simp
  have c: "\<exists>ev \<in> set (new_events world0 (snd (execute provider_disk_full request_numpy world0))).
             (is_write ev \<or> is_run ev) \<and> snd ev \<noteq> None"
    using w by (rule bexI [rotated]) simp
  have d: "installed_packages (snd (execute provider_disk_full request_numpy world0)) = [''numpy'']"
    by (simp add: numpy_disk_full_run)
  show ?thesis
    using a i w d later_fault_keeps_install [OF a refl b c, of provider_ok]
    by simp
qed

end
